theory Spec2Isabelle
  imports Main
begin

section \<open>Values of the program\<close>

text \<open>
  A Go \<^verbatim>\<open>error\<close> value is identified with the text its \<^verbatim>\<open>Error()\<close> method returns.
  A nil error is \<open>None\<close> of \<open>error option\<close>.
\<close>

datatype error = Error string

fun message :: "error \<Rightarrow> string" where
  "message (Error m) = m"

text \<open>
  The struct declarations of \<^verbatim>\<open>coa.ChartOfAccounts\<close> and \<^verbatim>\<open>coa.Account\<close> belong to an
  external package. The program reads and writes the fields \<^verbatim>\<open>Id\<close> and \<^verbatim>\<open>User\<close> only;
  everything else the structs hold is kept as one opaque field.
\<close>

record chartOfAccounts =
  chart_Id :: string
  chart_User :: string
  chart_Other :: string

record account =
  acct_Id :: string
  acct_User :: string
  acct_Other :: string

text \<open>\<^verbatim>\<open>&coa.ChartOfAccounts{}\<close> and \<^verbatim>\<open>&coa.Account{}\<close>: every field has its zero value.\<close>

definition zeroChart :: chartOfAccounts where
  "zeroChart = \<lparr>chart_Id = [], chart_User = [], chart_Other = []\<rparr>"

definition zeroAccount :: account where
  "zeroAccount = \<lparr>acct_Id = [], acct_User = [], acct_Other = []\<rparr>"

text \<open>
  \<^verbatim>\<open>type repository struct { *coa.CoaRepository; user string }\<close>. The embedded pointer is
  the address of the repository object built around one key-value store.
\<close>

record repository =
  CoaRepository :: nat
  repo_user :: string

text \<open>
  \<^verbatim>\<open>httprouter.Params\<close> is a slice of key/value pairs; \<^verbatim>\<open>ByName\<close> returns the value of the
  first pair whose key matches and the empty string when there is none.
\<close>

type_synonym params = "(string \<times> string) list"

fun ByName :: "params \<Rightarrow> string \<Rightarrow> string" where
  "ByName [] name = []"
| "ByName ((k, v) # ps) name = (if k = name then v else ByName ps name)"

text \<open>
  The part of \<^verbatim>\<open>*http.Request\<close> that \<^verbatim>\<open>user\<close> reads: the header map. The body is a
  stream and lives in the state.
\<close>

record request =
  Header :: "string \<Rightarrow> string list option"

text \<open>The anonymous struct \<^verbatim>\<open>claims\<close> of \<^verbatim>\<open>user\<close>.\<close>

record claims =
  Email :: string
  Verified :: bool

section \<open>The response writer\<close>

text \<open>
  An in-memory \<^verbatim>\<open>http.ResponseWriter\<close>: the header map under construction, the status
  line once it has been written together with the headers sent with it, and the body
  written so far. \<^verbatim>\<open>WriteHeader\<close> takes effect once; \<^verbatim>\<open>Write\<close> sends status 200 first
  when no status has been written. Writes to it do not fail.
\<close>

record response =
  resp_header :: "string \<Rightarrow> string option"
  resp_status :: "nat option"
  resp_sent :: "string \<Rightarrow> string option"
  resp_body :: string

definition newResponse :: response where
  "newResponse = \<lparr>resp_header = Map.empty, resp_status = None,
     resp_sent = Map.empty, resp_body = []\<rparr>"

definition Header_Set :: "string \<Rightarrow> string \<Rightarrow> response \<Rightarrow> response" where
  "Header_Set k v w = w\<lparr>resp_header := (resp_header w)(k \<mapsto> v)\<rparr>"

definition WriteHeader :: "nat \<Rightarrow> response \<Rightarrow> response" where
  "WriteHeader code w =
     (if resp_status w = None
      then w\<lparr>resp_status := Some code, resp_sent := resp_header w\<rparr>
      else w)"

definition Write :: "string \<Rightarrow> response \<Rightarrow> response" where
  "Write b w =
     (let w1 = (if resp_status w = None then WriteHeader 200 w else w)
      in w1\<lparr>resp_body := resp_body w1 @ b\<rparr>)"

definition newline :: string where
  "newline = [CHR 0x0A]"

text \<open>
  \<^verbatim>\<open>http.Error\<close>: plain-text content type, the nosniff option, the status code, then the
  message and a newline.
\<close>

definition http_Error :: "string \<Rightarrow> nat \<Rightarrow> response \<Rightarrow> response" where
  "http_Error msg code w =
     Write (msg @ newline)
       (WriteHeader code
         (Header_Set ''X-Content-Type-Options'' ''nosniff''
           (Header_Set ''Content-Type'' ''text/plain; charset=utf-8'' w)))"

definition StatusInternalServerError :: nat where
  "StatusInternalServerError = 500"

text \<open>\<^verbatim>\<open>check\<close>: report a non-nil error on the response and say whether there was one.\<close>

definition check :: "error option \<Rightarrow> response \<Rightarrow> bool \<times> response" where
  "check err w =
     (case err of
        None \<Rightarrow> (False, w)
      | Some e \<Rightarrow> (True, http_Error (message e) StatusInternalServerError w))"

section \<open>The authenticator\<close>

text \<open>
  The OpenID Connect verifier is an external collaborator. \<open>Verify\<close> maps a raw token to
  an ID token or an error, \<open>Claims\<close> unmarshals the payload of an ID token into the
  \<open>claims\<close> struct or fails.
\<close>

record 'tok verifier =
  Verify :: "string \<Rightarrow> error + 'tok"
  Claims :: "'tok \<Rightarrow> error + claims"

text \<open>\<^verbatim>\<open>strings.TrimPrefix\<close>.\<close>

definition TrimPrefix :: "string \<Rightarrow> string \<Rightarrow> string" where
  "TrimPrefix s p = (if take (length p) s = p then drop (length p) s else s)"

text \<open>
  The first lines of \<^verbatim>\<open>user\<close>: the token is the first \<^verbatim>\<open>Authorization\<close> value without
  its \<^verbatim>\<open>Bearer \<close> prefix, and stays empty when the header is absent or has no value.
\<close>

definition credential :: "request \<Rightarrow> string" where
  "credential r =
     (case Header r ''Authorization'' of
        Some (t # ts) \<Rightarrow> TrimPrefix t ''Bearer ''
      | _ \<Rightarrow> [])"

text \<open>\<^verbatim>\<open>user\<close> returns the pair of Go results: the identity and the error.\<close>

definition user :: "'tok verifier \<Rightarrow> request \<Rightarrow> string \<times> error option" where
  "user vf r =
     (case Verify vf (credential r) of
        Inl err \<Rightarrow> ([], Some err)
      | Inr idtoken \<Rightarrow>
          (case Claims vf idtoken of
             Inl err \<Rightarrow> ([], Some err)
           | Inr cl \<Rightarrow>
               if \<not> Verified cl then ([], Some (Error ''email not verified''))
               else (Email cl, None)))"

section \<open>The repository interface and the domain state\<close>

text \<open>
  The methods of \<^verbatim>\<open>*coa.CoaRepository\<close> that the program calls, with their arguments.
\<close>

datatype call =
    AllChartsOfAccounts
  | GetChartOfAccounts string
  | SaveChartOfAccounts chartOfAccounts
  | AllAccounts string
  | GetAccount string string
  | SaveAccount string account

text \<open>
  What a domain operation handler can do to the world: call the repository through its
  handle (the handle is recorded as it is at the moment of the call) and read the request
  body through the decoder it is given.
\<close>

datatype dom_event = Call repository call | ReadBody

text \<open>
  What a domain operation handler can reach: the state of the storage backend, the unread
  part of the request body, and the events it has caused so far. It has no access to the
  response writer.
\<close>

record 'db denv =
  db :: 'db
  req_body :: string
  emitted :: "dom_event list"

text \<open>The Go result pair \<^verbatim>\<open>(interface{}, error)\<close>; either component may be nil.\<close>

type_synonym 'v result = "'v option \<times> error option"

text \<open>
  The process-wide collaborators, set up by \<^verbatim>\<open>main\<close> and read-only afterwards:
  \<^item> \<open>verifier\<close>: the global \<^verbatim>\<open>verifier\<close>;
  \<^item> \<open>NewKeyValueStore\<close>: the store factory of the configuration; it returns an error,
    or a value that is a \<^verbatim>\<open>coa.KeyValueStore\<close> (\<open>Some\<close>) or is not (\<open>None\<close>);
  \<^item> \<open>Repo\<close>: what a method of the external repository returns and does to the backend,
    given the handle it is called on;
  \<^item> \<open>DecodeChart\<close>, \<open>DecodeAccount\<close>: \<^verbatim>\<open>json.NewDecoder(body).Decode(v)\<close> at the two types
    the program decodes into: from the unread body and the value \<open>v\<close> points to, the
    error, the value afterwards and the body left unread;
  \<^item> \<open>Marshal\<close>: the JSON encoding of a result value, or an error.
\<close>

record ('tok, 'db, 'v) env =
  verifier :: "'tok verifier"
  NewKeyValueStore :: "'db \<Rightarrow> (error + nat option) \<times> 'db"
  Repo :: "repository \<Rightarrow> call \<Rightarrow> 'db \<Rightarrow> 'v result \<times> 'db"
  DecodeChart :: "string \<Rightarrow> chartOfAccounts \<Rightarrow> (error option \<times> chartOfAccounts) \<times> string"
  DecodeAccount :: "string \<Rightarrow> account \<Rightarrow> (error option \<times> account) \<times> string"
  Marshal :: "'v \<Rightarrow> error + string"

text \<open>
  \<^verbatim>\<open>type decoder func(interface{}) error\<close>. The argument is a pointer; the model has one
  function for each type of pointer the program passes, taking the value pointed to and
  returning the error and the value afterwards.
\<close>

record 'db decoder =
  decode_chart :: "chartOfAccounts \<Rightarrow> 'db denv \<Rightarrow> (error option \<times> chartOfAccounts) \<times> 'db denv"
  decode_account :: "account \<Rightarrow> 'db denv \<Rightarrow> (error option \<times> account) \<times> 'db denv"

type_synonym ('db, 'v) handlerfn =
  "repository \<Rightarrow> params \<Rightarrow> 'db decoder \<Rightarrow> 'db denv \<Rightarrow> 'v result \<times> 'db denv"

text \<open>A method call on the handle \<open>cr\<close>.\<close>

definition repo_call ::
  "('tok, 'db, 'v) env \<Rightarrow> repository \<Rightarrow> call \<Rightarrow> 'db denv \<Rightarrow> 'v result \<times> 'db denv" where
  "repo_call env cr c s =
     (let (res, d) = Repo env cr c (db s)
      in (res, s\<lparr>db := d, emitted := emitted s @ [Call cr c]\<rparr>))"

section \<open>The domain operation handlers\<close>

definition chartsOfAccounts :: "('tok, 'db, 'v) env \<Rightarrow> ('db, 'v) handlerfn" where
  "chartsOfAccounts env cr ps d s = repo_call env cr AllChartsOfAccounts s"

definition getChartOfAccounts :: "('tok, 'db, 'v) env \<Rightarrow> ('db, 'v) handlerfn" where
  "getChartOfAccounts env cr ps d s =
     repo_call env cr (GetChartOfAccounts (ByName ps ''coa'')) s"

definition saveChartsOfAccounts :: "('tok, 'db, 'v) env \<Rightarrow> ('db, 'v) handlerfn" where
  "saveChartsOfAccounts env cr ps d s =
     (let ((err, c), s1) = decode_chart d zeroChart s
      in case err of
           Some e \<Rightarrow> ((None, Some e), s1)
         | None \<Rightarrow>
             let c1 = (if ByName ps ''coa'' \<noteq> [] then c\<lparr>chart_Id := ByName ps ''coa''\<rparr> else c);
                 c2 = c1\<lparr>chart_User := repo_user cr\<rparr>
             in repo_call env cr (SaveChartOfAccounts c2) s1)"

definition accounts :: "('tok, 'db, 'v) env \<Rightarrow> ('db, 'v) handlerfn" where
  "accounts env cr ps d s = repo_call env cr (AllAccounts (ByName ps ''coa'')) s"

definition getAccount :: "('tok, 'db, 'v) env \<Rightarrow> ('db, 'v) handlerfn" where
  "getAccount env cr ps d s =
     repo_call env cr (GetAccount (ByName ps ''coa'') (ByName ps ''account'')) s"

definition saveAccount :: "('tok, 'db, 'v) env \<Rightarrow> ('db, 'v) handlerfn" where
  "saveAccount env cr ps d s =
     (let ((err, a), s1) = decode_account d zeroAccount s
      in case err of
           Some e \<Rightarrow> ((None, Some e), s1)
         | None \<Rightarrow>
             let a1 = (if ByName ps ''account'' \<noteq> [] then a\<lparr>acct_Id := ByName ps ''account''\<rparr> else a);
                 a2 = a1\<lparr>acct_User := repo_user cr\<rparr>
             in repo_call env cr (SaveAccount (ByName ps ''coa'') a2) s1)"

section \<open>The pool and the dispatcher\<close>

text \<open>
  One request is served against this state: the idle handles of \<^verbatim>\<open>repositoryPool\<close>, the
  response writer, the storage backend, the unread request body, and the trace of what
  has happened: acquisitions and releases of handles, and the events of the domain
  operation handler.
\<close>

datatype event = Acquire repository | Release repository | Dom dom_event

record 'db state =
  pool :: "repository list"
  resp :: response
  store :: 'db
  body :: string
  trace :: "event list"

text \<open>
  The \<^verbatim>\<open>New\<close> function of the pool. A failing factory and a value that is not a key-value
  store both panic; \<open>Inl\<close> is the panic.
\<close>

definition New :: "('tok, 'db, 'v) env \<Rightarrow> 'db state \<Rightarrow> (error + repository) \<times> 'db state" where
  "New env s =
     (case NewKeyValueStore env (store s) of
        (Inl err, d) \<Rightarrow> (Inl err, s\<lparr>store := d\<rparr>)
      | (Inr None, d) \<Rightarrow>
          (Inl (Error ''interface conversion: interface is not coa.KeyValueStore''), s\<lparr>store := d\<rparr>)
      | (Inr (Some kv), d) \<Rightarrow> (Inr \<lparr>CoaRepository = kv, repo_user = []\<rparr>, s\<lparr>store := d\<rparr>))"

text \<open>
  \<^verbatim>\<open>sync.Pool.Get\<close> returns some handle that was put before and removes it from the pool,
  or the result of \<open>New\<close>. Which one it is is not decided by the program: \<open>choice\<close> names
  the position of the idle handle taken, and \<open>None\<close> or a position out of range means
  that \<open>New\<close> is called.
\<close>

definition pool_Get ::
  "('tok, 'db, 'v) env \<Rightarrow> nat option \<Rightarrow> 'db state \<Rightarrow> (error + repository) \<times> 'db state" where
  "pool_Get env choice s =
     (case (case choice of
              Some i \<Rightarrow> if i < length (pool s)
                        then (Inr (pool s ! i), s\<lparr>pool := take i (pool s) @ drop (Suc i) (pool s)\<rparr>)
                        else New env s
            | None \<Rightarrow> New env s) of
        (Inl p, s1) \<Rightarrow> (Inl p, s1)
      | (Inr cr, s1) \<Rightarrow> (Inr cr, s1\<lparr>trace := trace s1 @ [Acquire cr]\<rparr>))"

definition pool_Put :: "repository \<Rightarrow> 'db state \<Rightarrow> 'db state" where
  "pool_Put cr s = s\<lparr>pool := cr # pool s, trace := trace s @ [Release cr]\<rparr>"

text \<open>
  The closure that \<^verbatim>\<open>handler\<close> passes to the domain operation handler:
  \<^verbatim>\<open>json.NewDecoder(r.Body).Decode(v)\<close>.
\<close>

definition body_decoder :: "('tok, 'db, 'v) env \<Rightarrow> 'db decoder" where
  "body_decoder env = \<lparr>
     decode_chart = (\<lambda>c s.
       let (res, rest) = DecodeChart env (req_body s) c
       in (res, s\<lparr>req_body := rest, emitted := emitted s @ [ReadBody]\<rparr>)),
     decode_account = (\<lambda>a s.
       let (res, rest) = DecodeAccount env (req_body s) a
       in (res, s\<lparr>req_body := rest, emitted := emitted s @ [ReadBody]\<rparr>))\<rparr>"

text \<open>
  The call \<^verbatim>\<open>f(cr, ps, decoder)\<close>: the handler runs on the backend and the body, and
  its events are appended to the trace.
\<close>

definition invoke ::
  "('db, 'v) handlerfn \<Rightarrow> repository \<Rightarrow> params \<Rightarrow> 'db decoder \<Rightarrow> 'db state \<Rightarrow> 'v result \<times> 'db state" where
  "invoke f cr ps d s =
     (let (res, e) = f cr ps d \<lparr>db = store s, req_body = body s, emitted = []\<rparr>
      in (res, s\<lparr>store := db e, body := req_body e, trace := trace s @ map Dom (emitted e)\<rparr>))"

text \<open>
  \<^verbatim>\<open>json.NewEncoder(w).Encode(v)\<close>: an encoding error is returned before anything is
  written; otherwise the encoding and a newline are written.
\<close>

definition Encode :: "('tok, 'db, 'v) env \<Rightarrow> 'v \<Rightarrow> response \<Rightarrow> error option \<times> response" where
  "Encode env v w =
     (case Marshal env v of
        Inl err \<Rightarrow> (Some err, w)
      | Inr b \<Rightarrow> (None, Write (b @ newline) w))"

text \<open>
  The function that \<^verbatim>\<open>handler(f)\<close> returns, run on one request. The first component of
  the result is the panic the request ended with, if any. The deferred
  \<^verbatim>\<open>repositoryPool.Put(cr)\<close> runs when the function returns, on each of its paths after
  the \<^verbatim>\<open>defer\<close> statement.
\<close>

definition handler ::
  "('tok, 'db, 'v) env \<Rightarrow> ('db, 'v) handlerfn \<Rightarrow> nat option \<Rightarrow> request \<Rightarrow> params \<Rightarrow>
     'db state \<Rightarrow> error option \<times> 'db state" where
  "handler env f choice r ps s =
     (let (usr, err) = user (verifier env) r;
          (failed, w1) = check err (resp s)
      in if failed then (None, s\<lparr>resp := w1\<rparr>)
         else
           case pool_Get env choice (s\<lparr>resp := w1\<rparr>) of
             (Inl p, s1) \<Rightarrow> (Some p, s1)
           | (Inr cr0, s1) \<Rightarrow>
               let cr = cr0\<lparr>repo_user := usr\<rparr>;
                   ((v, err), s2) = invoke f cr ps (body_decoder env) s1;
                   (failed, w2) = check err (resp s2)
               in if failed then (None, pool_Put cr (s2\<lparr>resp := w2\<rparr>))
                  else
                    case v of
                      None \<Rightarrow> (None, pool_Put cr (s2\<lparr>resp := w2\<rparr>))
                    | Some x \<Rightarrow>
                        let w3 = Header_Set ''Content-Type'' ''application/json'' w2;
                            (err, w4) = Encode env x w3;
                            (failed, w5) = check err w4
                        in (None, pool_Put cr (s2\<lparr>resp := w5\<rparr>)))"

text \<open>
  The response that \<^verbatim>\<open>handler\<close> leaves after the domain operation handler has returned
  the pair \<open>res\<close>, written out by cases; \<open>handler_served\<close> below proves that this is what
  \<open>handler\<close> computes.
\<close>

definition respond :: "('tok, 'db, 'v) env \<Rightarrow> 'v result \<Rightarrow> response \<Rightarrow> response" where
  "respond env res w =
     (case snd res of
        Some e \<Rightarrow> http_Error (message e) StatusInternalServerError w
      | None \<Rightarrow>
          (case fst res of
             None \<Rightarrow> w
           | Some x \<Rightarrow>
               (case Marshal env x of
                  Inl e \<Rightarrow> http_Error (message e) StatusInternalServerError
                             (Header_Set ''Content-Type'' ''application/json'' w)
                | Inr b \<Rightarrow> Write (b @ newline)
                             (Header_Set ''Content-Type'' ''application/json'' w))))"

text \<open>The routes that \<^verbatim>\<open>main\<close> registers: method, path pattern, domain operation handler.\<close>

definition routes :: "('tok, 'db, 'v) env \<Rightarrow> (string \<times> string \<times> ('db, 'v) handlerfn) list" where
  "routes env =
     [(''GET'', ''/charts-of-accounts'', chartsOfAccounts env),
      (''POST'', ''/charts-of-accounts'', saveChartsOfAccounts env),
      (''GET'', ''/charts-of-accounts/:coa'', getChartOfAccounts env),
      (''PUT'', ''/charts-of-accounts/:coa'', saveChartsOfAccounts env),
      (''GET'', ''/charts-of-accounts/:coa/accounts'', accounts env),
      (''POST'', ''/charts-of-accounts/:coa/accounts'', saveAccount env),
      (''GET'', ''/charts-of-accounts/:coa/accounts/:account'', getAccount env),
      (''PUT'', ''/charts-of-accounts/:coa/accounts/:account'', saveAccount env)]"

section \<open>Reading a trace\<close>

text \<open>The events that a run has added to the trace of the state it started from.\<close>

definition new_events :: "'db state \<Rightarrow> 'db state \<Rightarrow> event list" where
  "new_events s s' = drop (length (trace s)) (trace s')"

text \<open>The handles acquired, the handles released, and the repository calls of a trace.\<close>

fun acquired :: "event list \<Rightarrow> repository list" where
  "acquired [] = []"
| "acquired (Acquire cr # es) = cr # acquired es"
| "acquired (e # es) = acquired es"

fun released :: "event list \<Rightarrow> repository list" where
  "released [] = []"
| "released (Release cr # es) = cr # released es"
| "released (e # es) = released es"

fun calls :: "event list \<Rightarrow> (repository \<times> call) list" where
  "calls [] = []"
| "calls (Dom (Call cr c) # es) = (cr, c) # calls es"
| "calls (e # es) = calls es"

fun body_reads :: "event list \<Rightarrow> nat" where
  "body_reads [] = 0"
| "body_reads (Dom ReadBody # es) = Suc (body_reads es)"
| "body_reads (e # es) = body_reads es"

text \<open>The ids of the charts that a domain operation handler has asked the repository to save.\<close>

fun saved_chart_ids :: "dom_event list \<Rightarrow> string list" where
  "saved_chart_ids [] = []"
| "saved_chart_ids (Call cr (SaveChartOfAccounts c) # es) = chart_Id c # saved_chart_ids es"
| "saved_chart_ids (e # es) = saved_chart_ids es"

text \<open>The owner that a save call persists; other calls persist nothing.\<close>

fun owner_of :: "call \<Rightarrow> string option" where
  "owner_of (SaveChartOfAccounts c) = Some (chart_User c)"
| "owner_of (SaveAccount k a) = Some (acct_User a)"
| "owner_of c = None"

section \<open>Fixtures\<close>

text \<open>
  A verifier for the concrete runs below: two well-formed tokens, one of a verified and
  one of an unverified address; every other token is rejected.
\<close>

definition sampleVerifier :: "nat verifier" where
  "sampleVerifier = \<lparr>
     Verify = (\<lambda>t. if t = ''alice'' then Inr 1
                    else if t = ''bob'' then Inr 2
                    else Inl (Error ''oidc: malformed jwt'')),
     Claims = (\<lambda>n. if n = 1 then Inr \<lparr>Email = ''alice@example.com'', Verified = True\<rparr>
                    else Inr \<lparr>Email = ''bob@example.com'', Verified = False\<rparr>)\<rparr>"

definition requestWith :: "string list option \<Rightarrow> request" where
  "requestWith auth = \<lparr>Header = (\<lambda>k. if k = ''Authorization'' then auth else None)\<rparr>"

text \<open>
  Decoders over a toy wire format, given as tables: three bodies decode, every other body
  is malformed.
\<close>

definition sampleDecodeChart ::
  "string \<Rightarrow> chartOfAccounts \<Rightarrow> (error option \<times> chartOfAccounts) \<times> string" where
  "sampleDecodeChart b c =
     (if b = ''id=other,user=mallory,name=Main2''
      then ((None, c\<lparr>chart_Id := ''other'', chart_User := ''mallory'', chart_Other := ''Main2''\<rparr>), [])
      else if b = ''id=other,user=eve,name=Main2''
      then ((None, c\<lparr>chart_Id := ''other'', chart_User := ''eve'', chart_Other := ''Main2''\<rparr>), [])
      else if b = ''name=Main''
      then ((None, c\<lparr>chart_Other := ''Main''\<rparr>), [])
      else ((Some (Error ''invalid character''), c), []))"

definition sampleDecodeAccount ::
  "string \<Rightarrow> account \<Rightarrow> (error option \<times> account) \<times> string" where
  "sampleDecodeAccount b a =
     (if b = ''id=other,user=mallory,name=Main2''
      then ((None, a\<lparr>acct_Id := ''other'', acct_User := ''mallory'', acct_Other := ''Main2''\<rparr>), [])
      else if b = ''id=other,user=eve,name=Main2''
      then ((None, a\<lparr>acct_Id := ''other'', acct_User := ''eve'', acct_Other := ''Main2''\<rparr>), [])
      else if b = ''name=Main''
      then ((None, a\<lparr>acct_Other := ''Main''\<rparr>), [])
      else ((Some (Error ''invalid character''), a), []))"

text \<open>
  The result values of the concrete runs: a string, and the floating-point value NaN,
  which \<^verbatim>\<open>encoding/json\<close> refuses to encode.
\<close>

datatype gvalue = Text string | NaN

definition sampleMarshal :: "gvalue \<Rightarrow> error + string" where
  "sampleMarshal v =
     (case v of
        Text t \<Rightarrow> Inr (CHR 0x22 # t @ [CHR 0x22])
      | NaN \<Rightarrow> Inl (Error ''json: unsupported value: NaN''))"

text \<open>
  A backend that journals the saves it receives. A save returns the id of the entity, a
  get of a chart returns the id asked for, the list of charts is the value \<open>charts\<close>, the
  list of accounts is nil, and a get of an account fails.
\<close>

definition sampleRepo :: "repository \<Rightarrow> call \<Rightarrow> call list \<Rightarrow> gvalue result \<times> call list" where
  "sampleRepo cr c d =
     (case c of
        AllChartsOfAccounts \<Rightarrow> ((Some (Text ''charts''), None), d)
      | GetChartOfAccounts i \<Rightarrow> ((Some (Text i), None), d)
      | SaveChartOfAccounts ch \<Rightarrow> ((Some (Text (chart_Id ch)), None), d @ [c])
      | AllAccounts k \<Rightarrow> ((None, None), d)
      | GetAccount k i \<Rightarrow> ((None, Some (Error ''account not found'')), d)
      | SaveAccount k a \<Rightarrow> ((Some (Text (acct_Id a)), None), d @ [c]))"

definition sampleEnv :: "(nat, call list, gvalue) env" where
  "sampleEnv = \<lparr>
     verifier = sampleVerifier,
     NewKeyValueStore = (\<lambda>d. (Inr (Some 7), d)),
     Repo = sampleRepo,
     DecodeChart = sampleDecodeChart,
     DecodeAccount = sampleDecodeAccount,
     Marshal = sampleMarshal\<rparr>"

text \<open>
  A domain operation handler that touches nothing and returns NaN with a nil error.
\<close>

definition nanHandler :: "(call list, gvalue) handlerfn" where
  "nanHandler cr ps d e = ((Some NaN, None), e)"

text \<open>
  A state in which the pool holds one idle handle, last used by another caller, and
  nothing has been written to the response.
\<close>

definition staleHandle :: repository where
  "staleHandle = \<lparr>CoaRepository = 3, repo_user = ''carol@example.com''\<rparr>"

definition sampleState :: "string \<Rightarrow> call list state" where
  "sampleState b = \<lparr>pool = [staleHandle], resp = newResponse, store = [], body = b, trace = []\<rparr>"

text \<open>What a domain operation handler starts from: an empty backend and the body \<open>b\<close>.\<close>

definition sampleDenv :: "string \<Rightarrow> call list denv" where
  "sampleDenv b = \<lparr>db = [], req_body = b, emitted = []\<rparr>"

definition aliceRequest :: request where
  "aliceRequest = requestWith (Some [''Bearer alice''])"

section \<open>Auxiliary facts\<close>

lemma check_None: "check None w = (False, w)"
  by (simp add: check_def)

lemma check_Some: "check (Some e) w = (True, http_Error (message e) StatusInternalServerError w)"
  by (simp add: check_def)

lemma http_Error_fresh:
  assumes "resp_status w = None"
  shows "resp_status (http_Error m c w) = Some c"
    and "resp_body (http_Error m c w) = resp_body w @ m @ newline"
    and "resp_sent (http_Error m c w) ''Content-Type'' = Some ''text/plain; charset=utf-8''"
  using assms by (simp_all add: http_Error_def Write_def WriteHeader_def Header_Set_def)

lemma Header_Set_status: "resp_status (Header_Set k v w) = resp_status w"
  and Header_Set_body: "resp_body (Header_Set k v w) = resp_body w"
  by (simp_all add: Header_Set_def)

lemma Write_fresh:
  assumes "resp_status w = None"
  shows "resp_status (Write b w) = Some 200"
    and "resp_body (Write b w) = resp_body w @ b"
    and "resp_sent (Write b w) = resp_header w"
  using assms by (simp_all add: Write_def WriteHeader_def)

lemma pool_Get_Inr:
  assumes "pool_Get env choice s = (Inr cr0, s1)"
  shows "trace s1 = trace s @ [Acquire cr0]" and "resp s1 = resp s" and "body s1 = body s"
  using assms
  by (auto simp: pool_Get_def New_def split: option.splits if_splits prod.splits sum.splits)

lemma pool_Get_Inl:
  assumes "pool_Get env choice s = (Inl p, s1)"
  shows "trace s1 = trace s" and "resp s1 = resp s" and "body s1 = body s" and "pool s1 = pool s"
  using assms
  by (auto simp: pool_Get_def New_def split: option.splits if_splits prod.splits sum.splits)

lemma pool_Get_body:
  "pool_Get env choice (s\<lparr>body := b\<rparr>) = map_prod id (\<lambda>t. t\<lparr>body := b\<rparr>) (pool_Get env choice s)"
  by (auto simp: pool_Get_def New_def split: option.splits if_splits prod.splits sum.splits)

lemma invoke_frame:
  assumes "invoke f cr ps d s = (res, s2)"
  shows "resp s2 = resp s" and "pool s2 = pool s"
    and "\<exists>evs. trace s2 = trace s @ map Dom evs"
  using assms by (auto simp: invoke_def split: prod.splits)

lemma handler_auth_failed:
  assumes "user (verifier env) r = (u, Some e)"
  shows "handler env f choice r ps s =
           (None, s\<lparr>resp := http_Error (message e) StatusInternalServerError (resp s)\<rparr>)"
  using assms by (simp add: handler_def check_Some)

lemma handler_panic:
  assumes "user (verifier env) r = (u, None)" and "pool_Get env choice s = (Inl p, s1)"
  shows "handler env f choice r ps s = (Some p, s1)"
  using assms by (simp add: handler_def check_None)

lemma handler_served:
  assumes "user (verifier env) r = (u, None)" and "pool_Get env choice s = (Inr cr0, s1)"
    and "invoke f (cr0\<lparr>repo_user := u\<rparr>) ps (body_decoder env) s1 = (res, s2)"
  shows "handler env f choice r ps s =
           (None, pool_Put (cr0\<lparr>repo_user := u\<rparr>) (s2\<lparr>resp := respond env res (resp s2)\<rparr>))"
  using assms
  by (cases res) (auto simp: handler_def check_None check_Some respond_def Encode_def
      split: option.splits sum.splits)


lemma handler_trace:
  assumes "user (verifier env) r = (u, None)" and "pool_Get env choice s = (Inr cr0, s1)"
  shows "new_events s (snd (handler env f choice r ps s)) =
           Acquire cr0 #
           map Dom (emitted (snd (f (cr0\<lparr>repo_user := u\<rparr>) ps (body_decoder env)
                      \<lparr>db = store s1, req_body = body s, emitted = []\<rparr>))) @
           [Release (cr0\<lparr>repo_user := u\<rparr>)]"
proof -
  obtain res s2 where inv: "invoke f (cr0\<lparr>repo_user := u\<rparr>) ps (body_decoder env) s1 = (res, s2)"
    by (cases "invoke f (cr0\<lparr>repo_user := u\<rparr>) ps (body_decoder env) s1")
  have t2: "trace s2 = trace s1 @ map Dom (emitted (snd (f (cr0\<lparr>repo_user := u\<rparr>) ps (body_decoder env)
                      \<lparr>db = store s1, req_body = body s1, emitted = []\<rparr>)))"
    using inv by (auto simp: invoke_def split: prod.splits)
  show ?thesis
    using handler_served [OF assms inv] pool_Get_Inr [OF assms(2)] t2
    by (simp add: new_events_def pool_Put_def)
qed

lemma repo_call_emitted:
  "emitted (snd (repo_call env cr c e)) = emitted e @ [Call cr c]"
  and repo_call_body: "req_body (snd (repo_call env cr c e)) = req_body e"
  by (simp_all add: repo_call_def split: prod.splits)

lemma saveChartsOfAccounts_decoded:
  assumes "decode_chart d zeroChart e = ((None, c), e1)"
  shows "saveChartsOfAccounts env cr ps d e =
           repo_call env cr
             (SaveChartOfAccounts
               ((if ByName ps ''coa'' \<noteq> [] then c\<lparr>chart_Id := ByName ps ''coa''\<rparr> else c)
                  \<lparr>chart_User := repo_user cr\<rparr>)) e1"
  using assms by (simp add: saveChartsOfAccounts_def)

lemma saveAccount_decoded:
  assumes "decode_account d zeroAccount e = ((None, a), e1)"
  shows "saveAccount env cr ps d e =
           repo_call env cr
             (SaveAccount (ByName ps ''coa'')
               ((if ByName ps ''account'' \<noteq> [] then a\<lparr>acct_Id := ByName ps ''account''\<rparr> else a)
                  \<lparr>acct_User := repo_user cr\<rparr>)) e1"
  using assms by (simp add: saveAccount_def)

lemma saveChartsOfAccounts_failed:
  assumes "decode_chart d zeroChart e = ((Some er, c), e1)"
  shows "saveChartsOfAccounts env cr ps d e = ((None, Some er), e1)"
  using assms by (simp add: saveChartsOfAccounts_def)

lemma saveAccount_failed:
  assumes "decode_account d zeroAccount e = ((Some er, a), e1)"
  shows "saveAccount env cr ps d e = ((None, Some er), e1)"
  using assms by (simp add: saveAccount_def)

lemma body_decoder_chart:
  assumes "DecodeChart env (req_body e) c = (res, rest)"
  shows "decode_chart (body_decoder env) c e =
           (res, e\<lparr>req_body := rest, emitted := emitted e @ [ReadBody]\<rparr>)"
  using assms by (simp add: body_decoder_def)

lemma body_decoder_account:
  assumes "DecodeAccount env (req_body e) a = (res, rest)"
  shows "decode_account (body_decoder env) a e =
           (res, e\<lparr>req_body := rest, emitted := emitted e @ [ReadBody]\<rparr>)"
  using assms by (simp add: body_decoder_def)

lemma calls_append: "calls (xs @ ys) = calls xs @ calls ys"
  by (induction xs rule: calls.induct) simp_all

lemma acquired_append: "acquired (xs @ ys) = acquired xs @ acquired ys"
  by (induction xs rule: acquired.induct) simp_all

lemma released_append: "released (xs @ ys) = released xs @ released ys"
  by (induction xs rule: released.induct) simp_all

lemma body_reads_append: "body_reads (xs @ ys) = body_reads xs + body_reads ys"
  by (induction xs rule: body_reads.induct) simp_all

lemma acquired_Dom: "acquired (map Dom evs) = []"
  by (induction evs) simp_all

lemma released_Dom: "released (map Dom evs) = []"
  by (induction evs) simp_all

lemma new_events_append: "trace s' = trace s @ evs \<Longrightarrow> new_events s s' = evs"
  by (simp add: new_events_def)

lemma new_events_resp: "new_events s (s\<lparr>resp := w\<rparr>) = []"
  by (simp add: new_events_def)

lemma user_failed_cases:
  assumes "(Header r ''Authorization'' = None \<and> (\<exists>e. Verify vf [] = Inl e))
     \<or> (\<exists>e. Verify vf (credential r) = Inl e)
     \<or> (\<exists>tok cl. Verify vf (credential r) = Inr tok \<and> Claims vf tok = Inr cl \<and> \<not> Verified cl)"
  shows "\<exists>e. user vf r = ([], Some e)"
  using assms by (auto simp: user_def credential_def)


section \<open>Properties of the authenticator\<close>

text \<open>
  C6. A credential that the verifier accepts, whose payload decodes and carries
  \<^verbatim>\<open>email_verified = false\<close>, makes \<open>user\<close> return the error \<^verbatim>\<open>email not verified\<close> and the
  empty identity: a verified signature alone is not enough.
\<close>

theorem user_email_not_verified:
  assumes "Verify vf (credential r) = Inr idtoken"
    and "Claims vf idtoken = Inr cl"
    and "\<not> Verified cl"
  shows "user vf r = ([], Some (Error ''email not verified''))"
  using assms by (simp add: user_def)

theorem user_email_not_verified_witness:
  "user sampleVerifier (requestWith (Some [''Bearer bob''])) =
     ([], Some (Error ''email not verified''))"
proof -
  let ?r = "requestWith (Some [''Bearer bob''])"
  have c: "credential ?r = ''bob''"
    by (simp add: credential_def requestWith_def TrimPrefix_def)
  have v: "Verify sampleVerifier (credential ?r) = Inr 2"
    by (simp add: c sampleVerifier_def)
  have cl: "Claims sampleVerifier 2 = Inr \<lparr>Email = ''bob@example.com'', Verified = False\<rparr>"
    by (simp add: sampleVerifier_def)
  show ?thesis
    using user_email_not_verified [OF v cl] by simp
qed



section \<open>Properties of the dispatcher\<close>

subsection \<open>Failing closed\<close>

text \<open>
  C1. When the credential is missing (and the verifier rejects the empty credential),
  invalid (the verifier rejects it) or carries an unverified address, and nothing has
  been written to the response yet, the run ends with status 500 and changes nothing but
  the response: the outcome is the same for every domain operation handler and every
  choice of the pool, no handle is acquired and no repository call is made.
\<close>

theorem handler_fails_closed:
  assumes cred:
    "(Header r ''Authorization'' = None \<and> (\<exists>e. Verify (verifier env) [] = Inl e))
     \<or> (\<exists>e. Verify (verifier env) (credential r) = Inl e)
     \<or> (\<exists>tok cl. Verify (verifier env) (credential r) = Inr tok
            \<and> Claims (verifier env) tok = Inr cl \<and> \<not> Verified cl)"
    and fresh: "resp_status (resp s) = None"
  shows "\<exists>w. resp_status w = Some StatusInternalServerError
           \<and> (\<forall>g c. handler env g c r ps s = (None, s\<lparr>resp := w\<rparr>))
           \<and> acquired (new_events s (snd (handler env f choice r ps s))) = []
           \<and> calls (new_events s (snd (handler env f choice r ps s))) = []"
proof -
  from user_failed_cases [OF cred] obtain e where u: "user (verifier env) r = ([], Some e)" ..
  let ?w = "http_Error (message e) StatusInternalServerError (resp s)"
  have all: "\<forall>g c. handler env g c r ps s = (None, s\<lparr>resp := ?w\<rparr>)"
    by (simp add: handler_auth_failed [OF u])
  have st: "resp_status ?w = Some StatusInternalServerError"
    by (rule http_Error_fresh(1) [OF fresh])
  from all have "handler env f choice r ps s = (None, s\<lparr>resp := ?w\<rparr>)" by blast
  then have "new_events s (snd (handler env f choice r ps s)) = []"
    by (simp add: new_events_resp)
  with all st show ?thesis by auto
qed

theorem handler_fails_closed_witness:
  "Header (requestWith None) ''Authorization'' = None
   \<and> Verify (verifier sampleEnv) [] = Inl (Error ''oidc: malformed jwt'')
   \<and> resp_status (resp (sampleState ''name=Main'')) = None
   \<and> fst (handler sampleEnv (saveChartsOfAccounts sampleEnv) (Some 0) (requestWith None) []
             (sampleState ''name=Main'')) = None
   \<and> resp_status (resp (snd (handler sampleEnv (saveChartsOfAccounts sampleEnv) (Some 0)
             (requestWith None) [] (sampleState ''name=Main'')))) = Some 500
   \<and> pool (snd (handler sampleEnv (saveChartsOfAccounts sampleEnv) (Some 0)
             (requestWith None) [] (sampleState ''name=Main''))) = [staleHandle]
   \<and> store (snd (handler sampleEnv (saveChartsOfAccounts sampleEnv) (Some 0)
             (requestWith None) [] (sampleState ''name=Main''))) = []
   \<and> trace (snd (handler sampleEnv (saveChartsOfAccounts sampleEnv) (Some 0)
             (requestWith None) [] (sampleState ''name=Main''))) = []"
proof -
  let ?s = "sampleState ''name=Main''"
  have h: "Header (requestWith None) ''Authorization'' = None"
    by (simp add: requestWith_def)
  have v: "Verify (verifier sampleEnv) [] = Inl (Error ''oidc: malformed jwt'')"
    by (simp add: sampleEnv_def sampleVerifier_def)
  have fresh: "resp_status (resp ?s) = None"
    by (simp add: sampleState_def newResponse_def)
  have cred: "(Header (requestWith None) ''Authorization'' = None
        \<and> (\<exists>e. Verify (verifier sampleEnv) [] = Inl e))
     \<or> (\<exists>e. Verify (verifier sampleEnv) (credential (requestWith None)) = Inl e)
     \<or> (\<exists>tok cl. Verify (verifier sampleEnv) (credential (requestWith None)) = Inr tok
            \<and> Claims (verifier sampleEnv) tok = Inr cl \<and> \<not> Verified cl)"
    using h v by blast
  from handler_fails_closed [OF cred fresh]
  obtain w where w: "resp_status w = Some StatusInternalServerError"
    and run: "\<forall>g c. handler sampleEnv g c (requestWith None) [] ?s = (None, ?s\<lparr>resp := w\<rparr>)"
    by blast
  from run have "handler sampleEnv (saveChartsOfAccounts sampleEnv) (Some 0) (requestWith None) [] ?s
      = (None, ?s\<lparr>resp := w\<rparr>)" by blast
  with w h v fresh show ?thesis
    by (simp add: sampleState_def StatusInternalServerError_def)
qed


subsection \<open>The identity of the handle\<close>

lemma invoke_guard:
  "invoke (\<lambda>cr'. if cr' = cr then f cr' else g cr') cr ps d s = invoke f cr ps d s"
  by (simp add: invoke_def)

lemma handler_guard:
  assumes "user (verifier env) r = (u, None)" and "pool_Get env choice s = (Inr cr0, s1)"
  shows "handler env (\<lambda>cr. if cr = cr0\<lparr>repo_user := u\<rparr> then f cr else g cr) choice r ps s =
         handler env f choice r ps s"
  using assms by (simp add: handler_def check_None invoke_guard)

lemma route_handlers:
  assumes "(m, p, h) \<in> set (routes env)"
  shows "h = chartsOfAccounts env \<or> h = getChartOfAccounts env \<or> h = saveChartsOfAccounts env
       \<or> h = accounts env \<or> h = getAccount env \<or> h = saveAccount env"
  using assms by (auto simp: routes_def)

lemma get_route_handlers:
  assumes "(''GET'', p, h) \<in> set (routes env)"
  shows "h = chartsOfAccounts env \<or> h = getChartOfAccounts env
       \<or> h = accounts env \<or> h = getAccount env"
  using assms by (auto simp: routes_def)

text \<open>Each domain operation handler calls the repository on the handle it was given.\<close>

lemma saveChartsOfAccounts_emitted:
  "emitted (snd (saveChartsOfAccounts env cr ps (body_decoder env) e)) =
     emitted e @ ReadBody #
       (case fst (DecodeChart env (req_body e) zeroChart) of
          (Some er, c) \<Rightarrow> []
        | (None, c) \<Rightarrow>
            [Call cr (SaveChartOfAccounts
               ((if ByName ps ''coa'' \<noteq> [] then c\<lparr>chart_Id := ByName ps ''coa''\<rparr> else c)
                  \<lparr>chart_User := repo_user cr\<rparr>))])"
proof (cases "DecodeChart env (req_body e) zeroChart")
  case (Pair res rest)
  obtain er c where res: "res = (er, c)" by (cases res)
  note dec = body_decoder_chart [OF Pair [unfolded res]]
  show ?thesis
  proof (cases er)
    case None
    with dec Pair res show ?thesis
      by (simp add: saveChartsOfAccounts_decoded repo_call_emitted)
  next
    case (Some x)
    with dec Pair res show ?thesis
      by (simp add: saveChartsOfAccounts_failed)
  qed
qed

lemma saveAccount_emitted:
  "emitted (snd (saveAccount env cr ps (body_decoder env) e)) =
     emitted e @ ReadBody #
       (case fst (DecodeAccount env (req_body e) zeroAccount) of
          (Some er, a) \<Rightarrow> []
        | (None, a) \<Rightarrow>
            [Call cr (SaveAccount (ByName ps ''coa'')
               ((if ByName ps ''account'' \<noteq> [] then a\<lparr>acct_Id := ByName ps ''account''\<rparr> else a)
                  \<lparr>acct_User := repo_user cr\<rparr>))])"
proof (cases "DecodeAccount env (req_body e) zeroAccount")
  case (Pair res rest)
  obtain er a where res: "res = (er, a)" by (cases res)
  note dec = body_decoder_account [OF Pair [unfolded res]]
  show ?thesis
  proof (cases er)
    case None
    with dec Pair res show ?thesis
      by (simp add: saveAccount_decoded repo_call_emitted)
  next
    case (Some x)
    with dec Pair res show ?thesis
      by (simp add: saveAccount_failed)
  qed
qed

lemma read_emitted:
  "emitted (snd (chartsOfAccounts env cr ps d e)) = emitted e @ [Call cr AllChartsOfAccounts]"
  "emitted (snd (getChartOfAccounts env cr ps d e)) =
     emitted e @ [Call cr (GetChartOfAccounts (ByName ps ''coa''))]"
  "emitted (snd (accounts env cr ps d e)) = emitted e @ [Call cr (AllAccounts (ByName ps ''coa''))]"
  "emitted (snd (getAccount env cr ps d e)) =
     emitted e @ [Call cr (GetAccount (ByName ps ''coa'') (ByName ps ''account''))]"
  by (simp_all add: chartsOfAccounts_def getChartOfAccounts_def accounts_def getAccount_def
      repo_call_emitted)

lemma route_calls_on_handle:
  assumes "(m, p, h) \<in> set (routes env)" and "emitted e = []"
  shows "fst ` set (calls (map Dom (emitted (snd (h cr ps (body_decoder env) e))))) \<subseteq> {cr}"
  using route_handlers [OF assms(1)] assms(2)
  by (auto simp: read_emitted saveChartsOfAccounts_emitted saveAccount_emitted
      split: prod.splits option.splits)

text \<open>
  C4. When authentication has passed with identity \<open>u\<close> and the pool has handed out the
  handle \<open>cr0\<close> (whatever identity it was left with), the domain operation handler is
  invoked on \<open>cr0\<close> with its identity set to \<open>u\<close> and on no other handle: replacing the
  handler's behaviour on every other handle changes nothing. The events of the run are
  the acquisition, then the events of the domain operation handler, then the release of
  the rebound handle; and for each registered route every repository call of the run is
  made on the rebound handle, whose identity is \<open>u\<close>.
\<close>

theorem handler_binds_identity:
  assumes auth: "user (verifier env) r = (u, None)"
    and get: "pool_Get env choice s = (Inr cr0, s1)"
  shows "(\<forall>f g. handler env f choice r ps s =
            handler env (\<lambda>cr. if cr = cr0\<lparr>repo_user := u\<rparr> then f cr else g cr) choice r ps s)
    \<and> (\<forall>f. \<exists>evs. new_events s (snd (handler env f choice r ps s)) =
            Acquire cr0 # map Dom evs @ [Release (cr0\<lparr>repo_user := u\<rparr>)])
    \<and> (\<forall>(m, p, h) \<in> set (routes env).
          \<forall>(cr, c) \<in> set (calls (new_events s (snd (handler env h choice r ps s)))).
            cr = cr0\<lparr>repo_user := u\<rparr> \<and> repo_user cr = u)"
proof (intro conjI)
  show "\<forall>f g. handler env f choice r ps s =
            handler env (\<lambda>cr. if cr = cr0\<lparr>repo_user := u\<rparr> then f cr else g cr) choice r ps s"
    by (simp add: handler_guard [OF auth get])
  show "\<forall>f. \<exists>evs. new_events s (snd (handler env f choice r ps s)) =
            Acquire cr0 # map Dom evs @ [Release (cr0\<lparr>repo_user := u\<rparr>)]"
    using handler_trace [OF auth get] by blast
  show "\<forall>(m, p, h) \<in> set (routes env).
          \<forall>(cr, c) \<in> set (calls (new_events s (snd (handler env h choice r ps s)))).
            cr = cr0\<lparr>repo_user := u\<rparr> \<and> repo_user cr = u"
  proof (clarify)
    fix m p h cr c
    assume rt: "(m, p, h) \<in> set (routes env)"
      and mem: "(cr, c) \<in> set (calls (new_events s (snd (handler env h choice r ps s))))"
    let ?e = "\<lparr>db = store s1, req_body = body s, emitted = []\<rparr>"
    have sub: "fst ` set (calls (map Dom (emitted (snd (h (cr0\<lparr>repo_user := u\<rparr>) ps (body_decoder env) ?e)))))
        \<subseteq> {cr0\<lparr>repo_user := u\<rparr>}"
      by (rule route_calls_on_handle [OF rt]) simp
    from mem have "(cr, c) \<in> set (calls (map Dom (emitted (snd (h (cr0\<lparr>repo_user := u\<rparr>) ps (body_decoder env) ?e)))))"
      by (simp add: handler_trace [OF auth get] calls_append)
    with sub have "cr = cr0\<lparr>repo_user := u\<rparr>" by force
    then show "cr = cr0\<lparr>repo_user := u\<rparr> \<and> repo_user cr = u" by simp
  qed
qed


lemma sample_auth: "user (verifier sampleEnv) aliceRequest = (''alice@example.com'', None)"
  by (simp add: user_def credential_def aliceRequest_def requestWith_def TrimPrefix_def
      sampleEnv_def sampleVerifier_def)

lemma sample_get:
  "pool_Get sampleEnv (Some 0) (sampleState b) =
     (Inr staleHandle, (sampleState b)\<lparr>pool := [], trace := [Acquire staleHandle]\<rparr>)"
  by (simp add: pool_Get_def sampleState_def)

lemma sample_decode_mallory:
  "DecodeChart sampleEnv ''id=other,user=mallory,name=Main2'' zeroChart =
     ((None, \<lparr>chart_Id = ''other'', chart_User = ''mallory'', chart_Other = ''Main2''\<rparr>), [])"
  by (simp add: sampleEnv_def sampleDecodeChart_def zeroChart_def)

lemma sample_put_routes:
  "(''PUT'', ''/charts-of-accounts/:coa'', saveChartsOfAccounts sampleEnv) \<in> set (routes sampleEnv)"
  by (simp add: routes_def)

lemma sample_put_chart_events:
  "new_events (sampleState ''id=other,user=mallory,name=Main2'')
     (snd (handler sampleEnv (saveChartsOfAccounts sampleEnv) (Some 0) aliceRequest
         [(''coa'', ''c1'')] (sampleState ''id=other,user=mallory,name=Main2''))) =
   [Acquire staleHandle, Dom ReadBody,
    Dom (Call (staleHandle\<lparr>repo_user := ''alice@example.com''\<rparr>)
      (SaveChartOfAccounts
         \<lparr>chart_Id = ''c1'', chart_User = ''alice@example.com'', chart_Other = ''Main2''\<rparr>)),
    Release (staleHandle\<lparr>repo_user := ''alice@example.com''\<rparr>)]"
proof -
  note run = handler_trace [OF sample_auth sample_get,
      of "''id=other,user=mallory,name=Main2''" "saveChartsOfAccounts sampleEnv" "[(''coa'', ''c1'')]"]
  show ?thesis
    unfolding run
    by (simp add: saveChartsOfAccounts_emitted sample_decode_mallory sampleState_def)
qed

theorem handler_binds_identity_witness:
  "user (verifier sampleEnv) aliceRequest = (''alice@example.com'', None)
   \<and> fst (pool_Get sampleEnv (Some 0) (sampleState ''id=other,user=mallory,name=Main2'')) =
       Inr staleHandle
   \<and> repo_user staleHandle = ''carol@example.com''
   \<and> map (repo_user \<circ> fst)
       (calls (new_events (sampleState ''id=other,user=mallory,name=Main2'')
         (snd (handler sampleEnv (saveChartsOfAccounts sampleEnv) (Some 0) aliceRequest
           [(''coa'', ''c1'')] (sampleState ''id=other,user=mallory,name=Main2''))))) =
       [''alice@example.com'']"
proof -
  let ?s = "sampleState ''id=other,user=mallory,name=Main2''"
  let ?evs = "new_events ?s (snd (handler sampleEnv (saveChartsOfAccounts sampleEnv) (Some 0)
                aliceRequest [(''coa'', ''c1'')] ?s))"
  from handler_binds_identity [OF sample_auth sample_get, where ps = "[(''coa'', ''c1'')]"]
  have "\<forall>(m, p, h) \<in> set (routes sampleEnv).
          \<forall>(cr, c) \<in> set (calls (new_events ?s (snd (handler sampleEnv h (Some 0) aliceRequest
              [(''coa'', ''c1'')] ?s)))).
            cr = staleHandle\<lparr>repo_user := ''alice@example.com''\<rparr> \<and> repo_user cr = ''alice@example.com''"
    by blast
  with sample_put_routes
  have all: "\<forall>(cr, c) \<in> set (calls ?evs). repo_user cr = ''alice@example.com''"
    by fastforce
  have len: "length (calls ?evs) = 1"
    by (simp add: sample_put_chart_events)
  from len obtain x where x: "calls ?evs = [x]"
    by (cases "calls ?evs") auto
  with all have "map (repo_user \<circ> fst) (calls ?evs) = [''alice@example.com'']"
    by (cases x) simp
  then show ?thesis
    by (simp add: sample_auth sample_get staleHandle_def)
qed

subsection \<open>Acquisition and release\<close>

text \<open>
  C5. In every run of the dispatcher, for every domain operation handler, whatever it
  returns and whether or not the result can be encoded, at most one handle is acquired
  and the handles released are exactly the handles acquired. When authentication has
  passed and the pool has handed out \<open>cr0\<close>, the run does not panic, acquires \<open>cr0\<close> once,
  releases it once (with the caller's identity in it) and leaves it in the pool.
\<close>

theorem handler_releases_once:
  "length (acquired (new_events s (snd (handler env f choice r ps s)))) \<le> 1
   \<and> map CoaRepository (released (new_events s (snd (handler env f choice r ps s)))) =
       map CoaRepository (acquired (new_events s (snd (handler env f choice r ps s))))
   \<and> (\<forall>u cr0 s1. user (verifier env) r = (u, None) \<and> pool_Get env choice s = (Inr cr0, s1) \<longrightarrow>
         fst (handler env f choice r ps s) = None
         \<and> acquired (new_events s (snd (handler env f choice r ps s))) = [cr0]
         \<and> released (new_events s (snd (handler env f choice r ps s))) = [cr0\<lparr>repo_user := u\<rparr>]
         \<and> pool (snd (handler env f choice r ps s)) = cr0\<lparr>repo_user := u\<rparr> # pool s1)"
proof -
  let ?evs = "new_events s (snd (handler env f choice r ps s))"
  have served: "fst (handler env f choice r ps s) = None \<and> acquired ?evs = [cr0]
         \<and> released ?evs = [cr0\<lparr>repo_user := u\<rparr>]
         \<and> pool (snd (handler env f choice r ps s)) = cr0\<lparr>repo_user := u\<rparr> # pool s1"
    if auth: "user (verifier env) r = (u, None)" and get: "pool_Get env choice s = (Inr cr0, s1)"
    for u cr0 s1
  proof -
    obtain res s2 where inv:
      "invoke f (cr0\<lparr>repo_user := u\<rparr>) ps (body_decoder env) s1 = (res, s2)"
      by (cases "invoke f (cr0\<lparr>repo_user := u\<rparr>) ps (body_decoder env) s1")
    have "pool (snd (handler env f choice r ps s)) = cr0\<lparr>repo_user := u\<rparr> # pool s1"
      using handler_served [OF auth get inv] invoke_frame(2) [OF inv]
      by (simp add: pool_Put_def)
    moreover have "fst (handler env f choice r ps s) = None"
      using handler_served [OF auth get inv] by simp
    ultimately show ?thesis
      by (simp add: handler_trace [OF auth get] acquired_append released_append
          acquired_Dom released_Dom)
  qed
  obtain u eo where usr: "user (verifier env) r = (u, eo)"
    by (cases "user (verifier env) r")
  have none: "?evs = []" if "eo \<noteq> None \<or> (\<exists>p s1. pool_Get env choice s = (Inl p, s1))"
  proof (cases eo)
    case (Some e)
    then show ?thesis
      using usr by (simp add: handler_auth_failed new_events_resp)
  next
    case None
    with that obtain p s1 where get: "pool_Get env choice s = (Inl p, s1)" by blast
    from usr None have auth: "user (verifier env) r = (u, None)" by simp
    show ?thesis
      using handler_panic [OF auth get] pool_Get_Inl(1) [OF get]
      by (simp add: new_events_def)
  qed
  have count: "length (acquired ?evs) \<le> 1
     \<and> map CoaRepository (released ?evs) = map CoaRepository (acquired ?evs)"
  proof (cases "eo \<noteq> None \<or> (\<exists>p s1. pool_Get env choice s = (Inl p, s1))")
    case True
    then show ?thesis by (simp add: none)
  next
    case False
    then have auth: "user (verifier env) r = (u, None)" using usr by simp
    from False obtain cr0 s1 where get: "pool_Get env choice s = (Inr cr0, s1)"
      by (cases "pool_Get env choice s"; cases "fst (pool_Get env choice s)") auto
    from served [OF auth get] show ?thesis by simp
  qed
  from count served show ?thesis by blast
qed

theorem handler_releases_once_witness:
  "user (verifier sampleEnv) aliceRequest = (''alice@example.com'', None)
   \<and> fst (pool_Get sampleEnv (Some 0) (sampleState ''bad'')) = Inr staleHandle
   \<and> fst (handler sampleEnv (saveChartsOfAccounts sampleEnv) (Some 0) aliceRequest [] (sampleState ''bad'')) = None
   \<and> acquired (new_events (sampleState ''bad'')
        (snd (handler sampleEnv (saveChartsOfAccounts sampleEnv) (Some 0) aliceRequest []
           (sampleState ''bad'')))) = [staleHandle]
   \<and> released (new_events (sampleState ''bad'')
        (snd (handler sampleEnv (saveChartsOfAccounts sampleEnv) (Some 0) aliceRequest []
           (sampleState ''bad'')))) = [staleHandle\<lparr>repo_user := ''alice@example.com''\<rparr>]
   \<and> pool (snd (handler sampleEnv (saveChartsOfAccounts sampleEnv) (Some 0) aliceRequest []
           (sampleState ''bad''))) = [staleHandle\<lparr>repo_user := ''alice@example.com''\<rparr>]"
  using handler_releases_once [where s = "sampleState ''bad''" and env = sampleEnv
      and f = "saveChartsOfAccounts sampleEnv" and choice = "Some 0" and r = aliceRequest
      and ps = "[]"] sample_auth sample_get [of "''bad''"]
  by simp

subsection \<open>The response\<close>

lemma respond_failed:
  assumes "resp_status w = None"
  shows "resp_status (respond env (v, Some e) w) = Some StatusInternalServerError"
    and "resp_body (respond env (v, Some e) w) = resp_body w @ message e @ newline"
    and "resp_sent (respond env (v, Some e) w) ''Content-Type'' = Some ''text/plain; charset=utf-8''"
  using http_Error_fresh [OF assms] by (simp_all add: respond_def)

lemma respond_nil: "respond env (None, None) w = w"
  by (simp add: respond_def)

lemma respond_encoded:
  assumes "resp_status w = None" and "Marshal env x = Inr b"
  shows "resp_status (respond env (Some x, None) w) = Some 200"
    and "resp_body (respond env (Some x, None) w) = resp_body w @ b @ newline"
    and "resp_sent (respond env (Some x, None) w) ''Content-Type'' = Some ''application/json''"
  using assms
  by (simp_all add: respond_def Write_fresh Header_Set_status Header_Set_body, simp add: Header_Set_def)

lemma respond_not_encoded:
  assumes "resp_status w = None" and "Marshal env x = Inl e"
  shows "resp_status (respond env (Some x, None) w) = Some StatusInternalServerError"
    and "resp_body (respond env (Some x, None) w) = resp_body w @ message e @ newline"
    and "resp_sent (respond env (Some x, None) w) ''Content-Type'' = Some ''text/plain; charset=utf-8''"
  using assms(2) http_Error_fresh [of "Header_Set ''Content-Type'' ''application/json'' w"] assms(1)
  by (simp_all add: respond_def Header_Set_status Header_Set_body)

lemma handler_resp:
  assumes auth: "user (verifier env) r = (u, None)"
    and get: "pool_Get env choice s = (Inr cr0, s1)"
    and inv: "invoke f (cr0\<lparr>repo_user := u\<rparr>) ps (body_decoder env) s1 = (res, s2)"
  shows "resp (snd (handler env f choice r ps s)) = respond env res (resp s)"
  using handler_served [OF auth get inv] invoke_frame(1) [OF inv] pool_Get_Inr(2) [OF get]
  by (simp add: pool_Put_def)

text \<open>
  C9, as amended. When authentication has passed, a handle has been acquired and nothing
  has been written to the response yet, the response is decided by what the domain
  operation handler returns:
  \<^item> an error: status 500, plain-text content type, the body is the error message and a
    newline;
  \<^item> no error and a nil result: the response is left untouched, no status and no body;
  \<^item> no error and a result that has a JSON encoding: status 200, content type
    \<^verbatim>\<open>application/json\<close>, the body is the encoding and a newline;
  \<^item> no error and a result that has no JSON encoding: status 500, plain-text content type,
    the body is the encoder's error message and a newline.
\<close>

theorem handler_response:
  assumes auth: "user (verifier env) r = (u, None)"
    and get: "pool_Get env choice s = (Inr cr0, s1)"
    and inv: "invoke f (cr0\<lparr>repo_user := u\<rparr>) ps (body_decoder env) s1 = ((v, err), s2)"
    and fresh: "resp_status (resp s) = None"
  shows "(\<forall>e. err = Some e \<longrightarrow>
            resp_status (resp (snd (handler env f choice r ps s))) = Some StatusInternalServerError
          \<and> resp_sent (resp (snd (handler env f choice r ps s))) ''Content-Type'' =
              Some ''text/plain; charset=utf-8''
          \<and> resp_body (resp (snd (handler env f choice r ps s))) =
              resp_body (resp s) @ message e @ newline)
    \<and> (err = None \<and> v = None \<longrightarrow> resp (snd (handler env f choice r ps s)) = resp s)
    \<and> (\<forall>x b. err = None \<and> v = Some x \<and> Marshal env x = Inr b \<longrightarrow>
            resp_status (resp (snd (handler env f choice r ps s))) = Some 200
          \<and> resp_sent (resp (snd (handler env f choice r ps s))) ''Content-Type'' =
              Some ''application/json''
          \<and> resp_body (resp (snd (handler env f choice r ps s))) = resp_body (resp s) @ b @ newline)
    \<and> (\<forall>x e. err = None \<and> v = Some x \<and> Marshal env x = Inl e \<longrightarrow>
            resp_status (resp (snd (handler env f choice r ps s))) = Some StatusInternalServerError
          \<and> resp_sent (resp (snd (handler env f choice r ps s))) ''Content-Type'' =
              Some ''text/plain; charset=utf-8''
          \<and> resp_body (resp (snd (handler env f choice r ps s))) =
              resp_body (resp s) @ message e @ newline)"
  unfolding handler_resp [OF auth get inv]
proof (intro conjI allI impI)
  fix e assume "err = Some e"
  then show "resp_status (respond env (v, err) (resp s)) = Some StatusInternalServerError"
    and "resp_sent (respond env (v, err) (resp s)) ''Content-Type'' = Some ''text/plain; charset=utf-8''"
    and "resp_body (respond env (v, err) (resp s)) = resp_body (resp s) @ message e @ newline"
    by (simp_all add: respond_failed [OF fresh])
next
  assume "err = None \<and> v = None"
  then show "respond env (v, err) (resp s) = resp s"
    by (simp add: respond_nil)
next
  fix x b assume "err = None \<and> v = Some x \<and> Marshal env x = Inr b"
  then show "resp_status (respond env (v, err) (resp s)) = Some 200"
    and "resp_sent (respond env (v, err) (resp s)) ''Content-Type'' = Some ''application/json''"
    and "resp_body (respond env (v, err) (resp s)) = resp_body (resp s) @ b @ newline"
    by (simp_all add: respond_encoded [OF fresh])
next
  fix x e assume "err = None \<and> v = Some x \<and> Marshal env x = Inl e"
  then show "resp_status (respond env (v, err) (resp s)) = Some StatusInternalServerError"
    and "resp_sent (respond env (v, err) (resp s)) ''Content-Type'' = Some ''text/plain; charset=utf-8''"
    and "resp_body (respond env (v, err) (resp s)) = resp_body (resp s) @ message e @ newline"
    by (simp_all add: respond_not_encoded [OF fresh])
qed

lemma sample_fresh: "resp_status (resp (sampleState b)) = None"
  and sample_body_empty: "resp_body (resp (sampleState b)) = []"
  by (simp_all add: sampleState_def newResponse_def)

lemma sample_served:
  "invoke (getChartOfAccounts sampleEnv) (staleHandle\<lparr>repo_user := ''alice@example.com''\<rparr>)
     [(''coa'', ''c1'')] (body_decoder sampleEnv)
     ((sampleState b)\<lparr>pool := [], trace := [Acquire staleHandle]\<rparr>) =
   ((Some (Text ''c1''), None),
    (sampleState b)\<lparr>pool := [], trace := [Acquire staleHandle,
       Dom (Call (staleHandle\<lparr>repo_user := ''alice@example.com''\<rparr>) (GetChartOfAccounts ''c1''))]\<rparr>)"
  by (simp add: invoke_def getChartOfAccounts_def repo_call_def sampleEnv_def sampleRepo_def
      sampleState_def)

lemma sample_nil:
  "invoke (accounts sampleEnv) (staleHandle\<lparr>repo_user := ''alice@example.com''\<rparr>)
     [(''coa'', ''c1'')] (body_decoder sampleEnv)
     ((sampleState b)\<lparr>pool := [], trace := [Acquire staleHandle]\<rparr>) =
   ((None, None),
    (sampleState b)\<lparr>pool := [], trace := [Acquire staleHandle,
       Dom (Call (staleHandle\<lparr>repo_user := ''alice@example.com''\<rparr>) (AllAccounts ''c1''))]\<rparr>)"
  by (simp add: invoke_def accounts_def repo_call_def sampleEnv_def sampleRepo_def
      sampleState_def)

lemma sample_failed:
  "invoke (getAccount sampleEnv) (staleHandle\<lparr>repo_user := ''alice@example.com''\<rparr>)
     [(''coa'', ''c1'')] (body_decoder sampleEnv)
     ((sampleState b)\<lparr>pool := [], trace := [Acquire staleHandle]\<rparr>) =
   ((None, Some (Error ''account not found'')),
    (sampleState b)\<lparr>pool := [], trace := [Acquire staleHandle,
       Dom (Call (staleHandle\<lparr>repo_user := ''alice@example.com''\<rparr>) (GetAccount ''c1'' []))]\<rparr>)"
  by (simp add: invoke_def getAccount_def repo_call_def sampleEnv_def sampleRepo_def
      sampleState_def)

lemma sample_nan:
  "invoke nanHandler (staleHandle\<lparr>repo_user := ''alice@example.com''\<rparr>) []
     (body_decoder sampleEnv) ((sampleState b)\<lparr>pool := [], trace := [Acquire staleHandle]\<rparr>) =
   ((Some NaN, None), (sampleState b)\<lparr>pool := [], trace := [Acquire staleHandle]\<rparr>)"
  by (simp add: invoke_def nanHandler_def sampleState_def)

lemma sample_marshal_text: "Marshal sampleEnv (Text ''c1'') = Inr (CHR 0x22 # ''c1'' @ [CHR 0x22])"
  and sample_marshal_nan: "Marshal sampleEnv NaN = Inl (Error ''json: unsupported value: NaN'')"
  by (simp_all add: sampleEnv_def sampleMarshal_def)

theorem handler_response_witness:
  "user (verifier sampleEnv) aliceRequest = (''alice@example.com'', None)
   \<and> fst (pool_Get sampleEnv (Some 0) (sampleState [])) = Inr staleHandle
   \<and> resp_status (resp (sampleState [])) = None
   \<and> fst (invoke (getChartOfAccounts sampleEnv) (staleHandle\<lparr>repo_user := ''alice@example.com''\<rparr>)
        [(''coa'', ''c1'')] (body_decoder sampleEnv)
        ((sampleState [])\<lparr>pool := [], trace := [Acquire staleHandle]\<rparr>)) = (Some (Text ''c1''), None)
   \<and> Marshal sampleEnv (Text ''c1'') = Inr (CHR 0x22 # ''c1'' @ [CHR 0x22])
   \<and> resp_status (resp (snd (handler sampleEnv (getChartOfAccounts sampleEnv) (Some 0)
        aliceRequest [(''coa'', ''c1'')] (sampleState [])))) = Some 200
   \<and> resp_sent (resp (snd (handler sampleEnv (getChartOfAccounts sampleEnv) (Some 0)
        aliceRequest [(''coa'', ''c1'')] (sampleState [])))) ''Content-Type'' = Some ''application/json''
   \<and> resp_body (resp (snd (handler sampleEnv (getChartOfAccounts sampleEnv) (Some 0)
        aliceRequest [(''coa'', ''c1'')] (sampleState [])))) = CHR 0x22 # ''c1'' @ [CHR 0x22] @ newline
   \<and> fst (invoke (accounts sampleEnv) (staleHandle\<lparr>repo_user := ''alice@example.com''\<rparr>)
        [(''coa'', ''c1'')] (body_decoder sampleEnv)
        ((sampleState [])\<lparr>pool := [], trace := [Acquire staleHandle]\<rparr>)) = (None, None)
   \<and> resp (snd (handler sampleEnv (accounts sampleEnv) (Some 0)
        aliceRequest [(''coa'', ''c1'')] (sampleState []))) = newResponse
   \<and> fst (invoke (getAccount sampleEnv) (staleHandle\<lparr>repo_user := ''alice@example.com''\<rparr>)
        [(''coa'', ''c1'')] (body_decoder sampleEnv)
        ((sampleState [])\<lparr>pool := [], trace := [Acquire staleHandle]\<rparr>)) =
       (None, Some (Error ''account not found''))
   \<and> resp_status (resp (snd (handler sampleEnv (getAccount sampleEnv) (Some 0)
        aliceRequest [(''coa'', ''c1'')] (sampleState [])))) = Some 500
   \<and> resp_body (resp (snd (handler sampleEnv (getAccount sampleEnv) (Some 0)
        aliceRequest [(''coa'', ''c1'')] (sampleState [])))) = ''account not found'' @ newline"
proof -
  from handler_response [OF sample_auth sample_get sample_served sample_fresh] sample_marshal_text
  have served:
    "resp_status (resp (snd (handler sampleEnv (getChartOfAccounts sampleEnv) (Some 0)
          aliceRequest [(''coa'', ''c1'')] (sampleState [])))) = Some 200
      \<and> resp_sent (resp (snd (handler sampleEnv (getChartOfAccounts sampleEnv) (Some 0)
          aliceRequest [(''coa'', ''c1'')] (sampleState [])))) ''Content-Type'' = Some ''application/json''
      \<and> resp_body (resp (snd (handler sampleEnv (getChartOfAccounts sampleEnv) (Some 0)
          aliceRequest [(''coa'', ''c1'')] (sampleState [])))) =
           resp_body (resp (sampleState [])) @ (CHR 0x22 # ''c1'' @ [CHR 0x22]) @ newline"
    by blast
  from handler_response [OF sample_auth sample_get sample_nil sample_fresh]
  have nil: "resp (snd (handler sampleEnv (accounts sampleEnv) (Some 0)
        aliceRequest [(''coa'', ''c1'')] (sampleState []))) = resp (sampleState [])"
    by blast
  from handler_response [OF sample_auth sample_get sample_failed sample_fresh]
  have failed:
    "resp_status (resp (snd (handler sampleEnv (getAccount sampleEnv) (Some 0)
          aliceRequest [(''coa'', ''c1'')] (sampleState [])))) = Some StatusInternalServerError
      \<and> resp_body (resp (snd (handler sampleEnv (getAccount sampleEnv) (Some 0)
          aliceRequest [(''coa'', ''c1'')] (sampleState [])))) =
           resp_body (resp (sampleState [])) @ message (Error ''account not found'') @ newline"
    by blast
  have init: "resp (sampleState []) = newResponse"
    by (simp add: sampleState_def)
  from served nil failed show ?thesis
    by (simp add: sample_auth sample_get sample_served sample_nil sample_failed sample_fresh
        sample_body_empty sample_marshal_text init StatusInternalServerError_def newResponse_def)
qed

text \<open>
  C9, as stated, fails where the result has no JSON encoding: the domain operation
  handler succeeds with the non-nil result NaN, and the response is not that result in
  JSON under the JSON content type but the encoder's error as plain text under status
  500.
\<close>

theorem handler_json_body_counterexample:
  "fst (invoke nanHandler (staleHandle\<lparr>repo_user := ''alice@example.com''\<rparr>) []
        (body_decoder sampleEnv)
        ((sampleState [])\<lparr>pool := [], trace := [Acquire staleHandle]\<rparr>)) = (Some NaN, None)
   \<and> resp_status (resp (snd (handler sampleEnv nanHandler (Some 0) aliceRequest []
        (sampleState [])))) = Some 500
   \<and> resp_sent (resp (snd (handler sampleEnv nanHandler (Some 0) aliceRequest []
        (sampleState [])))) ''Content-Type'' = Some ''text/plain; charset=utf-8''
   \<and> resp_body (resp (snd (handler sampleEnv nanHandler (Some 0) aliceRequest []
        (sampleState [])))) = ''json: unsupported value: NaN'' @ newline"
proof -
  note r = handler_resp [OF sample_auth sample_get sample_nan]
  note e = respond_not_encoded [OF sample_fresh [of "[]"] sample_marshal_nan]
  show ?thesis
    unfolding r
    by (simp add: e sample_nan sample_body_empty StatusInternalServerError_def)
qed

subsection \<open>Saving\<close>

lemma handler_calls:
  assumes "user (verifier env) r = (u, None)" and "pool_Get env choice s = (Inr cr0, s1)"
  shows "calls (new_events s (snd (handler env f choice r ps s))) =
           calls (map Dom (emitted (snd (f (cr0\<lparr>repo_user := u\<rparr>) ps (body_decoder env)
                      \<lparr>db = store s1, req_body = body s, emitted = []\<rparr>))))"
  by (simp add: handler_trace [OF assms] calls_append)

lemma route_owner:
  assumes "(m, p, h) \<in> set (routes env)" and "emitted e = []"
    and "(cr', c) \<in> set (calls (map Dom (emitted (snd (h cr ps (body_decoder env) e)))))"
    and "owner_of c = Some ow"
  shows "ow = repo_user cr"
  using route_handlers [OF assms(1)] assms(2-4)
  by (auto simp: read_emitted saveChartsOfAccounts_emitted saveAccount_emitted
      split: prod.splits option.splits if_splits)

lemma pool_Get_other_body:
  assumes "pool_Get env choice s = (Inr cr0, s1)"
  shows "pool_Get env choice (s\<lparr>body := b\<rparr>) = (Inr cr0, s1\<lparr>body := b\<rparr>)"
  using assms by (simp add: pool_Get_body)

lemma save_chart_calls:
  assumes auth: "user (verifier env) r = (u, None)"
    and get: "pool_Get env choice s = (Inr cr0, s1)"
    and dec: "DecodeChart env (body s) zeroChart = ((None, c), rest)"
  shows "calls (new_events s (snd (handler env (saveChartsOfAccounts env) choice r ps s))) =
           [(cr0\<lparr>repo_user := u\<rparr>,
             SaveChartOfAccounts
               ((if ByName ps ''coa'' \<noteq> [] then c\<lparr>chart_Id := ByName ps ''coa''\<rparr> else c)
                  \<lparr>chart_User := u\<rparr>))]"
  by (simp add: handler_calls [OF auth get] saveChartsOfAccounts_emitted dec)

lemma save_account_calls:
  assumes auth: "user (verifier env) r = (u, None)"
    and get: "pool_Get env choice s = (Inr cr0, s1)"
    and dec: "DecodeAccount env (body s) zeroAccount = ((None, a), rest)"
  shows "calls (new_events s (snd (handler env (saveAccount env) choice r ps s))) =
           [(cr0\<lparr>repo_user := u\<rparr>,
             SaveAccount (ByName ps ''coa'')
               ((if ByName ps ''account'' \<noteq> [] then a\<lparr>acct_Id := ByName ps ''account''\<rparr> else a)
                  \<lparr>acct_User := u\<rparr>))]"
  by (simp add: handler_calls [OF auth get] saveAccount_emitted dec)

text \<open>
  C2. When authentication has passed with identity \<open>u\<close> and a handle has been acquired:
  on each registered route, every save call that reaches the repository carries an
  entity whose owner is \<open>u\<close>. For a body that decodes to a chart \<open>c\<close> and any other body
  that decodes to \<open>c\<close> with another owner, the two runs make one and the same save call,
  with owner \<open>u\<close>; likewise for accounts.
\<close>

theorem save_owner_is_caller:
  assumes auth: "user (verifier env) r = (u, None)"
    and get: "pool_Get env choice s = (Inr cr0, s1)"
  shows "(\<forall>(m, p, h) \<in> set (routes env).
           \<forall>(cr, c) \<in> set (calls (new_events s (snd (handler env h choice r ps s)))).
             \<forall>ow. owner_of c = Some ow \<longrightarrow> ow = u)
    \<and> (\<forall>c rest b2 o2 rest2.
          DecodeChart env (body s) zeroChart = ((None, c), rest)
          \<and> DecodeChart env b2 zeroChart = ((None, c\<lparr>chart_User := o2\<rparr>), rest2) \<longrightarrow>
          (\<exists>c'. chart_User c' = u
             \<and> calls (new_events s (snd (handler env (saveChartsOfAccounts env) choice r ps s))) =
                 [(cr0\<lparr>repo_user := u\<rparr>, SaveChartOfAccounts c')]
             \<and> calls (new_events (s\<lparr>body := b2\<rparr>)
                   (snd (handler env (saveChartsOfAccounts env) choice r ps (s\<lparr>body := b2\<rparr>)))) =
                 [(cr0\<lparr>repo_user := u\<rparr>, SaveChartOfAccounts c')]))
    \<and> (\<forall>a rest b2 o2 rest2.
          DecodeAccount env (body s) zeroAccount = ((None, a), rest)
          \<and> DecodeAccount env b2 zeroAccount = ((None, a\<lparr>acct_User := o2\<rparr>), rest2) \<longrightarrow>
          (\<exists>a'. acct_User a' = u
             \<and> calls (new_events s (snd (handler env (saveAccount env) choice r ps s))) =
                 [(cr0\<lparr>repo_user := u\<rparr>, SaveAccount (ByName ps ''coa'') a')]
             \<and> calls (new_events (s\<lparr>body := b2\<rparr>)
                   (snd (handler env (saveAccount env) choice r ps (s\<lparr>body := b2\<rparr>)))) =
                 [(cr0\<lparr>repo_user := u\<rparr>, SaveAccount (ByName ps ''coa'') a')]))"
proof (intro conjI)
  show "\<forall>(m, p, h) \<in> set (routes env).
           \<forall>(cr, c) \<in> set (calls (new_events s (snd (handler env h choice r ps s)))).
             \<forall>ow. owner_of c = Some ow \<longrightarrow> ow = u"
  proof clarify
    fix m p h cr c ow
    assume rt: "(m, p, h) \<in> set (routes env)"
      and mem: "(cr, c) \<in> set (calls (new_events s (snd (handler env h choice r ps s))))"
      and ow: "owner_of c = Some ow"
    let ?e = "\<lparr>db = store s1, req_body = body s, emitted = []\<rparr>"
    from mem have "(cr, c) \<in> set (calls (map Dom (emitted (snd (h (cr0\<lparr>repo_user := u\<rparr>) ps
        (body_decoder env) ?e)))))"
      by (simp add: handler_calls [OF auth get])
    from route_owner [OF rt _ this ow] show "ow = u" by simp
  qed
next
  show "\<forall>c rest b2 o2 rest2.
          DecodeChart env (body s) zeroChart = ((None, c), rest)
          \<and> DecodeChart env b2 zeroChart = ((None, c\<lparr>chart_User := o2\<rparr>), rest2) \<longrightarrow>
          (\<exists>c'. chart_User c' = u
             \<and> calls (new_events s (snd (handler env (saveChartsOfAccounts env) choice r ps s))) =
                 [(cr0\<lparr>repo_user := u\<rparr>, SaveChartOfAccounts c')]
             \<and> calls (new_events (s\<lparr>body := b2\<rparr>)
                   (snd (handler env (saveChartsOfAccounts env) choice r ps (s\<lparr>body := b2\<rparr>)))) =
                 [(cr0\<lparr>repo_user := u\<rparr>, SaveChartOfAccounts c')])"
  proof (intro allI impI, elim conjE)
    fix c rest b2 o2 rest2
    assume d1: "DecodeChart env (body s) zeroChart = ((None, c), rest)"
      and d2: "DecodeChart env b2 zeroChart = ((None, c\<lparr>chart_User := o2\<rparr>), rest2)"
    let ?c = "(if ByName ps ''coa'' \<noteq> [] then c\<lparr>chart_Id := ByName ps ''coa''\<rparr> else c)
                \<lparr>chart_User := u\<rparr>"
    have d2': "DecodeChart env (body (s\<lparr>body := b2\<rparr>)) zeroChart =
        ((None, c\<lparr>chart_User := o2\<rparr>), rest2)"
      using d2 by simp
    have "chart_User ?c = u" by simp
    moreover have "calls (new_events s (snd (handler env (saveChartsOfAccounts env) choice r ps s))) =
        [(cr0\<lparr>repo_user := u\<rparr>, SaveChartOfAccounts ?c)]"
      by (rule save_chart_calls [OF auth get d1])
    moreover have "calls (new_events (s\<lparr>body := b2\<rparr>)
          (snd (handler env (saveChartsOfAccounts env) choice r ps (s\<lparr>body := b2\<rparr>)))) =
        [(cr0\<lparr>repo_user := u\<rparr>, SaveChartOfAccounts ?c)]"
      using save_chart_calls [OF auth pool_Get_other_body [OF get] d2', of ps] by simp
    ultimately show "\<exists>c'. chart_User c' = u
             \<and> calls (new_events s (snd (handler env (saveChartsOfAccounts env) choice r ps s))) =
                 [(cr0\<lparr>repo_user := u\<rparr>, SaveChartOfAccounts c')]
             \<and> calls (new_events (s\<lparr>body := b2\<rparr>)
                   (snd (handler env (saveChartsOfAccounts env) choice r ps (s\<lparr>body := b2\<rparr>)))) =
                 [(cr0\<lparr>repo_user := u\<rparr>, SaveChartOfAccounts c')]"
      by blast
  qed
next
  show "\<forall>a rest b2 o2 rest2.
          DecodeAccount env (body s) zeroAccount = ((None, a), rest)
          \<and> DecodeAccount env b2 zeroAccount = ((None, a\<lparr>acct_User := o2\<rparr>), rest2) \<longrightarrow>
          (\<exists>a'. acct_User a' = u
             \<and> calls (new_events s (snd (handler env (saveAccount env) choice r ps s))) =
                 [(cr0\<lparr>repo_user := u\<rparr>, SaveAccount (ByName ps ''coa'') a')]
             \<and> calls (new_events (s\<lparr>body := b2\<rparr>)
                   (snd (handler env (saveAccount env) choice r ps (s\<lparr>body := b2\<rparr>)))) =
                 [(cr0\<lparr>repo_user := u\<rparr>, SaveAccount (ByName ps ''coa'') a')])"
  proof (intro allI impI, elim conjE)
    fix a rest b2 o2 rest2
    assume d1: "DecodeAccount env (body s) zeroAccount = ((None, a), rest)"
      and d2: "DecodeAccount env b2 zeroAccount = ((None, a\<lparr>acct_User := o2\<rparr>), rest2)"
    let ?a = "(if ByName ps ''account'' \<noteq> [] then a\<lparr>acct_Id := ByName ps ''account''\<rparr> else a)
                \<lparr>acct_User := u\<rparr>"
    have d2': "DecodeAccount env (body (s\<lparr>body := b2\<rparr>)) zeroAccount =
        ((None, a\<lparr>acct_User := o2\<rparr>), rest2)"
      using d2 by simp
    have "acct_User ?a = u" by simp
    moreover have "calls (new_events s (snd (handler env (saveAccount env) choice r ps s))) =
        [(cr0\<lparr>repo_user := u\<rparr>, SaveAccount (ByName ps ''coa'') ?a)]"
      by (rule save_account_calls [OF auth get d1])
    moreover have "calls (new_events (s\<lparr>body := b2\<rparr>)
          (snd (handler env (saveAccount env) choice r ps (s\<lparr>body := b2\<rparr>)))) =
        [(cr0\<lparr>repo_user := u\<rparr>, SaveAccount (ByName ps ''coa'') ?a)]"
      using save_account_calls [OF auth pool_Get_other_body [OF get] d2', of ps] by simp
    ultimately show "\<exists>a'. acct_User a' = u
             \<and> calls (new_events s (snd (handler env (saveAccount env) choice r ps s))) =
                 [(cr0\<lparr>repo_user := u\<rparr>, SaveAccount (ByName ps ''coa'') a')]
             \<and> calls (new_events (s\<lparr>body := b2\<rparr>)
                   (snd (handler env (saveAccount env) choice r ps (s\<lparr>body := b2\<rparr>)))) =
                 [(cr0\<lparr>repo_user := u\<rparr>, SaveAccount (ByName ps ''coa'') a')]"
      by blast
  qed
qed

lemma sample_decode_eve:
  "DecodeChart sampleEnv ''id=other,user=eve,name=Main2'' zeroChart =
     ((None, \<lparr>chart_Id = ''other'', chart_User = ''mallory'', chart_Other = ''Main2''\<rparr>
               \<lparr>chart_User := ''eve''\<rparr>), [])"
  by (simp add: sampleEnv_def sampleDecodeChart_def zeroChart_def)

lemma sample_body: "body (sampleState b) = b"
  by (simp add: sampleState_def)

theorem save_owner_is_caller_witness:
  "user (verifier sampleEnv) aliceRequest = (''alice@example.com'', None)
   \<and> fst (pool_Get sampleEnv (Some 0) (sampleState ''id=other,user=mallory,name=Main2'')) =
       Inr staleHandle
   \<and> map (owner_of \<circ> snd)
       (calls (new_events (sampleState ''id=other,user=mallory,name=Main2'')
         (snd (handler sampleEnv (saveChartsOfAccounts sampleEnv) (Some 0) aliceRequest []
           (sampleState ''id=other,user=mallory,name=Main2''))))) = [Some ''alice@example.com'']
   \<and> calls (new_events ((sampleState ''id=other,user=mallory,name=Main2'')
                \<lparr>body := ''id=other,user=eve,name=Main2''\<rparr>)
         (snd (handler sampleEnv (saveChartsOfAccounts sampleEnv) (Some 0) aliceRequest []
           ((sampleState ''id=other,user=mallory,name=Main2'')
                \<lparr>body := ''id=other,user=eve,name=Main2''\<rparr>)))) =
     calls (new_events (sampleState ''id=other,user=mallory,name=Main2'')
         (snd (handler sampleEnv (saveChartsOfAccounts sampleEnv) (Some 0) aliceRequest []
           (sampleState ''id=other,user=mallory,name=Main2''))))"
proof -
  let ?s = "sampleState ''id=other,user=mallory,name=Main2''"
  have d1: "DecodeChart sampleEnv (body ?s) zeroChart =
      ((None, \<lparr>chart_Id = ''other'', chart_User = ''mallory'', chart_Other = ''Main2''\<rparr>), [])"
    by (simp only: sample_body sample_decode_mallory)
  from save_owner_is_caller [OF sample_auth sample_get, where ps = "[]"] d1 sample_decode_eve
  obtain c' where "chart_User c' = ''alice@example.com''"
    and "calls (new_events ?s (snd (handler sampleEnv (saveChartsOfAccounts sampleEnv) (Some 0)
            aliceRequest [] ?s))) =
          [(staleHandle\<lparr>repo_user := ''alice@example.com''\<rparr>, SaveChartOfAccounts c')]"
    and "calls (new_events (?s\<lparr>body := ''id=other,user=eve,name=Main2''\<rparr>)
            (snd (handler sampleEnv (saveChartsOfAccounts sampleEnv) (Some 0) aliceRequest []
               (?s\<lparr>body := ''id=other,user=eve,name=Main2''\<rparr>)))) =
          [(staleHandle\<lparr>repo_user := ''alice@example.com''\<rparr>, SaveChartOfAccounts c')]"
    by blast
  then show ?thesis
    by (simp add: sample_auth sample_get)
qed

lemma ByName_absent: "name \<notin> fst ` set ps \<Longrightarrow> ByName ps name = []"
  by (induction ps name rule: ByName.induct) auto

text \<open>
  C3. When the body decodes, \<open>saveChartsOfAccounts\<close> makes one repository call, a save of
  the decoded chart in which the id is the path parameter \<^verbatim>\<open>coa\<close> when that is not empty,
  whatever id the body carried, and the id of the body when the parameter is empty or
  absent; the fields other than id and owner are those of the body. \<open>saveAccount\<close> does
  the same with the path parameter \<^verbatim>\<open>account\<close>.
\<close>

theorem save_id_from_path:
  "(\<forall>c e1. decode_chart d zeroChart e = ((None, c), e1) \<longrightarrow>
      (\<exists>c'. emitted (snd (saveChartsOfAccounts env cr ps d e)) =
               emitted e1 @ [Call cr (SaveChartOfAccounts c')]
           \<and> chart_Other c' = chart_Other c
           \<and> (ByName ps ''coa'' \<noteq> [] \<longrightarrow> chart_Id c' = ByName ps ''coa'')
           \<and> (ByName ps ''coa'' = [] \<or> ''coa'' \<notin> fst ` set ps \<longrightarrow> chart_Id c' = chart_Id c)))
   \<and> (\<forall>a e1. decode_account d zeroAccount e = ((None, a), e1) \<longrightarrow>
      (\<exists>a'. emitted (snd (saveAccount env cr ps d e)) =
               emitted e1 @ [Call cr (SaveAccount (ByName ps ''coa'') a')]
           \<and> acct_Other a' = acct_Other a
           \<and> (ByName ps ''account'' \<noteq> [] \<longrightarrow> acct_Id a' = ByName ps ''account'')
           \<and> (ByName ps ''account'' = [] \<or> ''account'' \<notin> fst ` set ps \<longrightarrow>
                acct_Id a' = acct_Id a)))"
proof (intro conjI allI impI)
  fix c e1 assume dec: "decode_chart d zeroChart e = ((None, c), e1)"
  let ?c = "(if ByName ps ''coa'' \<noteq> [] then c\<lparr>chart_Id := ByName ps ''coa''\<rparr> else c)
              \<lparr>chart_User := repo_user cr\<rparr>"
  have "emitted (snd (saveChartsOfAccounts env cr ps d e)) =
          emitted e1 @ [Call cr (SaveChartOfAccounts ?c)]"
    by (simp add: saveChartsOfAccounts_decoded [OF dec] repo_call_emitted)
  moreover have "chart_Other ?c = chart_Other c" by simp
  moreover have "ByName ps ''coa'' \<noteq> [] \<longrightarrow> chart_Id ?c = ByName ps ''coa''" by simp
  moreover have "ByName ps ''coa'' = [] \<or> ''coa'' \<notin> fst ` set ps \<longrightarrow> chart_Id ?c = chart_Id c"
    using ByName_absent [of "''coa''" ps] by auto
  ultimately show "\<exists>c'. emitted (snd (saveChartsOfAccounts env cr ps d e)) =
               emitted e1 @ [Call cr (SaveChartOfAccounts c')]
           \<and> chart_Other c' = chart_Other c
           \<and> (ByName ps ''coa'' \<noteq> [] \<longrightarrow> chart_Id c' = ByName ps ''coa'')
           \<and> (ByName ps ''coa'' = [] \<or> ''coa'' \<notin> fst ` set ps \<longrightarrow> chart_Id c' = chart_Id c)"
    by blast
next
  fix a e1 assume dec: "decode_account d zeroAccount e = ((None, a), e1)"
  let ?a = "(if ByName ps ''account'' \<noteq> [] then a\<lparr>acct_Id := ByName ps ''account''\<rparr> else a)
              \<lparr>acct_User := repo_user cr\<rparr>"
  have "emitted (snd (saveAccount env cr ps d e)) =
          emitted e1 @ [Call cr (SaveAccount (ByName ps ''coa'') ?a)]"
    by (simp add: saveAccount_decoded [OF dec] repo_call_emitted)
  moreover have "acct_Other ?a = acct_Other a" by simp
  moreover have "ByName ps ''account'' \<noteq> [] \<longrightarrow> acct_Id ?a = ByName ps ''account''" by simp
  moreover have "ByName ps ''account'' = [] \<or> ''account'' \<notin> fst ` set ps \<longrightarrow> acct_Id ?a = acct_Id a"
    using ByName_absent [of "''account''" ps] by auto
  ultimately show "\<exists>a'. emitted (snd (saveAccount env cr ps d e)) =
               emitted e1 @ [Call cr (SaveAccount (ByName ps ''coa'') a')]
           \<and> acct_Other a' = acct_Other a
           \<and> (ByName ps ''account'' \<noteq> [] \<longrightarrow> acct_Id a' = ByName ps ''account'')
           \<and> (ByName ps ''account'' = [] \<or> ''account'' \<notin> fst ` set ps \<longrightarrow>
                acct_Id a' = acct_Id a)"
    by blast
qed

lemma sample_decoder_mallory:
  "decode_chart (body_decoder sampleEnv) zeroChart (sampleDenv ''id=other,user=mallory,name=Main2'') =
     ((None, \<lparr>chart_Id = ''other'', chart_User = ''mallory'', chart_Other = ''Main2''\<rparr>),
      \<lparr>db = [], req_body = [], emitted = [ReadBody]\<rparr>)"
  by (simp add: body_decoder_def sample_decode_mallory sampleDenv_def)

theorem save_id_from_path_witness:
  "fst (decode_chart (body_decoder sampleEnv) zeroChart
         (sampleDenv ''id=other,user=mallory,name=Main2'')) =
     (None, \<lparr>chart_Id = ''other'', chart_User = ''mallory'', chart_Other = ''Main2''\<rparr>)
   \<and> ByName [(''coa'', ''c1'')] ''coa'' = ''c1''
   \<and> saved_chart_ids (emitted (snd (saveChartsOfAccounts sampleEnv staleHandle [(''coa'', ''c1'')]
        (body_decoder sampleEnv) (sampleDenv ''id=other,user=mallory,name=Main2'')))) = [''c1'']
   \<and> saved_chart_ids (emitted (snd (saveChartsOfAccounts sampleEnv staleHandle []
        (body_decoder sampleEnv) (sampleDenv ''id=other,user=mallory,name=Main2'')))) = [''other'']"
proof -
  let ?e = "sampleDenv ''id=other,user=mallory,name=Main2''"
  let ?c = "\<lparr>chart_Id = ''other'', chart_User = ''mallory'', chart_Other = ''Main2''\<rparr>"
  from save_id_from_path [where d = "body_decoder sampleEnv" and e = ?e and env = sampleEnv
      and cr = staleHandle and ps = "[(''coa'', ''c1'')]"] sample_decoder_mallory
  obtain c1 where
    "emitted (snd (saveChartsOfAccounts sampleEnv staleHandle [(''coa'', ''c1'')]
        (body_decoder sampleEnv) ?e)) = [ReadBody] @ [Call staleHandle (SaveChartOfAccounts c1)]"
    and "ByName [(''coa'', ''c1'')] ''coa'' \<noteq> [] \<longrightarrow> chart_Id c1 = ByName [(''coa'', ''c1'')] ''coa''"
    by fastforce
  then have put: "saved_chart_ids (emitted (snd (saveChartsOfAccounts sampleEnv staleHandle
        [(''coa'', ''c1'')] (body_decoder sampleEnv) ?e))) = [''c1'']"
    by simp
  from save_id_from_path [where d = "body_decoder sampleEnv" and e = ?e and env = sampleEnv
      and cr = staleHandle and ps = "[]"] sample_decoder_mallory
  obtain c2 where
    "emitted (snd (saveChartsOfAccounts sampleEnv staleHandle []
        (body_decoder sampleEnv) ?e)) = [ReadBody] @ [Call staleHandle (SaveChartOfAccounts c2)]"
    and "ByName [] ''coa'' = [] \<or> ''coa'' \<notin> fst ` set ([] :: params) \<longrightarrow> chart_Id c2 = chart_Id ?c"
    by fastforce
  then have post: "saved_chart_ids (emitted (snd (saveChartsOfAccounts sampleEnv staleHandle
        [] (body_decoder sampleEnv) ?e))) = [''other'']"
    by simp
  from put post show ?thesis
    by (simp add: sample_decoder_mallory)
qed

text \<open>
  C8. When decoding the body fails, \<open>saveChartsOfAccounts\<close> and \<open>saveAccount\<close> return the
  decode error with a nil result and leave the state as the decoder left it: no
  repository call is made. With the decoder of the dispatcher the only event is the read
  of the body, and the backend is unchanged.
\<close>

theorem save_decode_failure:
  "(\<forall>er c e1. decode_chart d zeroChart e = ((Some er, c), e1) \<longrightarrow>
       saveChartsOfAccounts env cr ps d e = ((None, Some er), e1))
   \<and> (\<forall>er a e1. decode_account d zeroAccount e = ((Some er, a), e1) \<longrightarrow>
       saveAccount env cr ps d e = ((None, Some er), e1))
   \<and> (\<forall>er c rest. DecodeChart env (req_body e) zeroChart = ((Some er, c), rest) \<longrightarrow>
       saveChartsOfAccounts env cr ps (body_decoder env) e =
         ((None, Some er), e\<lparr>req_body := rest, emitted := emitted e @ [ReadBody]\<rparr>))
   \<and> (\<forall>er a rest. DecodeAccount env (req_body e) zeroAccount = ((Some er, a), rest) \<longrightarrow>
       saveAccount env cr ps (body_decoder env) e =
         ((None, Some er), e\<lparr>req_body := rest, emitted := emitted e @ [ReadBody]\<rparr>))"
proof (intro conjI allI impI)
  fix er c e1 assume "decode_chart d zeroChart e = ((Some er, c), e1)"
  then show "saveChartsOfAccounts env cr ps d e = ((None, Some er), e1)"
    by (rule saveChartsOfAccounts_failed)
next
  fix er a e1 assume "decode_account d zeroAccount e = ((Some er, a), e1)"
  then show "saveAccount env cr ps d e = ((None, Some er), e1)"
    by (rule saveAccount_failed)
next
  fix er c rest assume "DecodeChart env (req_body e) zeroChart = ((Some er, c), rest)"
  from saveChartsOfAccounts_failed [OF body_decoder_chart [OF this]]
  show "saveChartsOfAccounts env cr ps (body_decoder env) e =
         ((None, Some er), e\<lparr>req_body := rest, emitted := emitted e @ [ReadBody]\<rparr>)" .
next
  fix er a rest assume "DecodeAccount env (req_body e) zeroAccount = ((Some er, a), rest)"
  from saveAccount_failed [OF body_decoder_account [OF this]]
  show "saveAccount env cr ps (body_decoder env) e =
         ((None, Some er), e\<lparr>req_body := rest, emitted := emitted e @ [ReadBody]\<rparr>)" .
qed

lemma sample_decode_bad:
  "DecodeAccount sampleEnv (req_body (sampleDenv ''{'')) zeroAccount =
     ((Some (Error ''invalid character''), zeroAccount), [])"
  by (simp add: sampleEnv_def sampleDecodeAccount_def sampleDenv_def)

theorem save_decode_failure_witness:
  "DecodeAccount sampleEnv (req_body (sampleDenv ''{'')) zeroAccount =
     ((Some (Error ''invalid character''), zeroAccount), [])
   \<and> fst (saveAccount sampleEnv staleHandle [(''coa'', ''c1'')] (body_decoder sampleEnv)
        (sampleDenv ''{'')) = (None, Some (Error ''invalid character''))
   \<and> emitted (snd (saveAccount sampleEnv staleHandle [(''coa'', ''c1'')] (body_decoder sampleEnv)
        (sampleDenv ''{''))) = [ReadBody]
   \<and> db (snd (saveAccount sampleEnv staleHandle [(''coa'', ''c1'')] (body_decoder sampleEnv)
        (sampleDenv ''{''))) = []"
proof -
  from save_decode_failure [where env = sampleEnv and e = "sampleDenv ''{''" and cr = staleHandle
      and ps = "[(''coa'', ''c1'')]"] sample_decode_bad
  have "saveAccount sampleEnv staleHandle [(''coa'', ''c1'')] (body_decoder sampleEnv)
          (sampleDenv ''{'') =
        ((None, Some (Error ''invalid character'')),
         (sampleDenv ''{'')\<lparr>req_body := [], emitted := emitted (sampleDenv ''{'') @ [ReadBody]\<rparr>)"
    by blast
  then show ?thesis
    by (simp add: sample_decode_bad) (simp add: sampleDenv_def)
qed

subsection \<open>Reading\<close>

lemma repo_call_other_body:
  "repo_call env cr c (e\<lparr>req_body := b\<rparr>) =
     map_prod id (\<lambda>x. x\<lparr>req_body := b\<rparr>) (repo_call env cr c e)"
  by (simp add: repo_call_def split: prod.splits)

lemma handler_body:
  assumes auth: "user (verifier env) r = (u, None)"
    and get: "pool_Get env choice s = (Inr cr0, s1)"
  shows "body (snd (handler env f choice r ps s)) =
           req_body (snd (f (cr0\<lparr>repo_user := u\<rparr>) ps (body_decoder env)
                      \<lparr>db = store s1, req_body = body s, emitted = []\<rparr>))"
proof -
  obtain res s2 where inv: "invoke f (cr0\<lparr>repo_user := u\<rparr>) ps (body_decoder env) s1 = (res, s2)"
    by (cases "invoke f (cr0\<lparr>repo_user := u\<rparr>) ps (body_decoder env) s1")
  have "body s2 = req_body (snd (f (cr0\<lparr>repo_user := u\<rparr>) ps (body_decoder env)
                      \<lparr>db = store s1, req_body = body s1, emitted = []\<rparr>))"
    using inv by (auto simp: invoke_def split: prod.splits)
  then show ?thesis
    using handler_served [OF auth get inv] pool_Get_Inr(3) [OF get]
    by (simp add: pool_Put_def)
qed

lemma handler_body_reads:
  assumes auth: "user (verifier env) r = (u, None)"
    and get: "pool_Get env choice s = (Inr cr0, s1)"
  shows "body_reads (new_events s (snd (handler env f choice r ps s))) =
           body_reads (map Dom (emitted (snd (f (cr0\<lparr>repo_user := u\<rparr>) ps (body_decoder env)
                      \<lparr>db = store s1, req_body = body s, emitted = []\<rparr>))))"
  by (simp add: handler_trace [OF auth get] body_reads_append)

lemma read_only_call:
  assumes "h = chartsOfAccounts env \<and> c = AllChartsOfAccounts
    \<or> h = getChartOfAccounts env \<and> c = GetChartOfAccounts (ByName ps ''coa'')
    \<or> h = accounts env \<and> c = AllAccounts (ByName ps ''coa'')
    \<or> h = getAccount env \<and> c = GetAccount (ByName ps ''coa'') (ByName ps ''account'')"
  shows "h cr ps d e = repo_call env cr c e"
  using assms
  by (auto simp: chartsOfAccounts_def getChartOfAccounts_def accounts_def getAccount_def)

lemma get_route_call:
  assumes "(''GET'', p, h) \<in> set (routes env)"
  shows "\<exists>c. \<forall>cr d e. h cr ps d e = repo_call env cr c e"
proof -
  from get_route_handlers [OF assms]
  consider "h = chartsOfAccounts env" | "h = getChartOfAccounts env"
    | "h = accounts env" | "h = getAccount env" by blast
  then show ?thesis
  proof cases
    case 1 then show ?thesis using read_only_call [of h env AllChartsOfAccounts] by blast
  next
    case 2 then show ?thesis
      using read_only_call [of h env "GetChartOfAccounts (ByName ps ''coa'')" ps] by blast
  next
    case 3 then show ?thesis
      using read_only_call [of h env "AllAccounts (ByName ps ''coa'')" ps] by blast
  next
    case 4 then show ?thesis
      using read_only_call [of h env "GetAccount (ByName ps ''coa'') (ByName ps ''account'')" ps]
      by blast
  qed
qed

text \<open>
  C10. On each \<^verbatim>\<open>GET\<close> route the domain operation handler does not use the decoder it is
  given and does not touch the request body: its result is the same for every decoder,
  it makes one repository call, fixed by the path parameters and made on the handle, the
  unread body is left as it was, and running it with another body changes nothing but
  that body. Through the dispatcher, such a run contains no read of the body.
\<close>

theorem get_routes_leave_body:
  assumes rt: "(''GET'', p, h) \<in> set (routes env)"
  shows "(\<forall>d'. h cr ps d' e = h cr ps d e)
    \<and> (\<exists>c. \<forall>cr2 d2 e2. emitted (snd (h cr2 ps d2 e2)) = emitted e2 @ [Call cr2 c])
    \<and> req_body (snd (h cr ps d e)) = req_body e
    \<and> (\<forall>b. h cr ps d (e\<lparr>req_body := b\<rparr>) = map_prod id (\<lambda>x. x\<lparr>req_body := b\<rparr>) (h cr ps d e))
    \<and> (\<forall>u cr0 s1 choice r s.
          user (verifier env) r = (u, None) \<and> pool_Get env choice s = (Inr cr0, s1) \<longrightarrow>
          body_reads (new_events s (snd (handler env h choice r ps s))) = 0
          \<and> body (snd (handler env h choice r ps s)) = body s)"
proof -
  from get_route_call [OF rt, of ps]
  obtain c where c: "\<And>cr d e. h cr ps d e = repo_call env cr c e" by blast
  have 1: "\<forall>d'. h cr ps d' e = h cr ps d e"
    by (simp add: c)
  have 2: "\<exists>c. \<forall>cr2 d2 e2. emitted (snd (h cr2 ps d2 e2)) = emitted e2 @ [Call cr2 c]"
    by (rule exI [of _ c]) (simp add: c repo_call_emitted)
  have 3: "req_body (snd (h cr ps d e)) = req_body e"
    by (simp add: c repo_call_body)
  have 4: "\<forall>b. h cr ps d (e\<lparr>req_body := b\<rparr>) = map_prod id (\<lambda>x. x\<lparr>req_body := b\<rparr>) (h cr ps d e)"
    by (simp add: c repo_call_other_body)
  have 5: "\<forall>u cr0 s1 choice r s.
          user (verifier env) r = (u, None) \<and> pool_Get env choice s = (Inr cr0, s1) \<longrightarrow>
          body_reads (new_events s (snd (handler env h choice r ps s))) = 0
          \<and> body (snd (handler env h choice r ps s)) = body s"
  proof (intro allI impI, elim conjE)
    fix u cr0 s1 choice r s
    assume auth: "user (verifier env) r = (u, None)"
      and get: "pool_Get env choice s = (Inr cr0, s1)"
    show "body_reads (new_events s (snd (handler env h choice r ps s))) = 0
          \<and> body (snd (handler env h choice r ps s)) = body s"
      by (simp add: handler_body_reads [OF auth get] handler_body [OF auth get] c
          repo_call_emitted repo_call_body)
  qed
  from 1 2 3 4 5 show ?thesis by blast
qed

lemma sample_get_route:
  "(''GET'', ''/charts-of-accounts/:coa'', getChartOfAccounts sampleEnv) \<in> set (routes sampleEnv)"
  by (simp add: routes_def)

theorem get_routes_leave_body_witness:
  "(''GET'', ''/charts-of-accounts/:coa'', getChartOfAccounts sampleEnv) \<in> set (routes sampleEnv)
   \<and> user (verifier sampleEnv) aliceRequest = (''alice@example.com'', None)
   \<and> fst (pool_Get sampleEnv (Some 0) (sampleState ''unread'')) = Inr staleHandle
   \<and> req_body (snd (getChartOfAccounts sampleEnv staleHandle [(''coa'', ''c1'')]
        (body_decoder sampleEnv) (sampleDenv ''unread''))) = ''unread''
   \<and> body_reads (new_events (sampleState ''unread'')
        (snd (handler sampleEnv (getChartOfAccounts sampleEnv) (Some 0) aliceRequest
           [(''coa'', ''c1'')] (sampleState ''unread'')))) = 0
   \<and> body (snd (handler sampleEnv (getChartOfAccounts sampleEnv) (Some 0) aliceRequest
           [(''coa'', ''c1'')] (sampleState ''unread''))) = ''unread''"
proof -
  note t = get_routes_leave_body [OF sample_get_route, where ps = "[(''coa'', ''c1'')]"
      and cr = staleHandle and d = "body_decoder sampleEnv" and e = "sampleDenv ''unread''"]
  from t have a: "req_body (snd (getChartOfAccounts sampleEnv staleHandle [(''coa'', ''c1'')]
        (body_decoder sampleEnv) (sampleDenv ''unread''))) = req_body (sampleDenv ''unread'')"
    by blast
  from t sample_auth sample_get [of "''unread''"]
  have b: "body_reads (new_events (sampleState ''unread'')
        (snd (handler sampleEnv (getChartOfAccounts sampleEnv) (Some 0) aliceRequest
           [(''coa'', ''c1'')] (sampleState ''unread'')))) = 0
     \<and> body (snd (handler sampleEnv (getChartOfAccounts sampleEnv) (Some 0) aliceRequest
           [(''coa'', ''c1'')] (sampleState ''unread''))) = body (sampleState ''unread'')"
    by blast
  from a b show ?thesis
    by (simp add: sample_get_route sample_auth sample_get sample_body) (simp add: sampleDenv_def)
qed

end
